theory Spec2Isabelle
  imports Complex_Main "HOL-Library.Sublist"
begin

section \<open>Persistence schema (models.py)\<close>

text \<open>
  The four tables of \<^verbatim>\<open>models.py\<close>. A table is the list of its rows in insertion order.
  Primary and foreign keys are Python integers, timestamps are seconds on the UTC clock,
  and the two nullable foreign keys of a like are options (\<open>None\<close> is SQL NULL).
  Field names are those of the columns; they are always written qualified
  (\<open>user.id\<close>, \<open>post.user_id\<close>), since several tables share a column name.
\<close>

record user =
  id :: int
  username :: string
  email :: string
  password_hash :: string
  is_admin :: bool
  created_at :: int

record post =
  id :: int
  title :: string
  content :: string
  user_id :: int
  created_at :: int
  updated_at :: int

record comment =
  id :: int
  content :: string
  user_id :: int
  post_id :: int
  created_at :: int
  updated_at :: int

record like =
  id :: int
  user_id :: int
  post_id :: "int option"
  comment_id :: "int option"
  created_at :: int

record database =
  users :: "user list"
  posts :: "post list"
  comments :: "comment list"
  likes :: "like list"

definition empty_db :: database where
  "empty_db = \<lparr>users = [], posts = [], comments = [], likes = []\<rparr>"

text \<open>The password primitives of werkzeug are parameters of the model.\<close>

record crypto =
  generate_password_hash :: "string \<Rightarrow> string"
  check_password_hash :: "string \<Rightarrow> string \<Rightarrow> bool"

subsection \<open>Queries\<close>

text \<open>\<^verbatim>\<open>Model.query.get(k)\<close>: the row with primary key \<open>k\<close>, if any.\<close>

definition User_get :: "database \<Rightarrow> int \<Rightarrow> user option" where
  "User_get db k = find (\<lambda>u. user.id u = k) (users db)"

definition Post_get :: "database \<Rightarrow> int \<Rightarrow> post option" where
  "Post_get db k = find (\<lambda>p. post.id p = k) (posts db)"

definition Comment_get :: "database \<Rightarrow> int \<Rightarrow> comment option" where
  "Comment_get db k = find (\<lambda>c. comment.id c = k) (comments db)"

text \<open>
  An integer primary key without a value: the engine assigns one more than the largest
  key of the table, and 1 in an empty table.
\<close>

definition next_id :: "int list \<Rightarrow> int" where
  "next_id ks = fold max ks 0 + 1"

text \<open>A pending change of a loaded row, written back under its primary key.\<close>

definition put_user :: "database \<Rightarrow> user \<Rightarrow> database" where
  "put_user db u = db\<lparr>users := map (\<lambda>x. if user.id x = user.id u then u else x) (users db)\<rparr>"

definition put_post :: "database \<Rightarrow> post \<Rightarrow> database" where
  "put_post db p = db\<lparr>posts := map (\<lambda>x. if post.id x = post.id p then p else x) (posts db)\<rparr>"

definition put_comment :: "database \<Rightarrow> comment \<Rightarrow> database" where
  "put_comment db c =
     db\<lparr>comments := map (\<lambda>x. if comment.id x = comment.id c then c else x) (comments db)\<rparr>"

text \<open>
  The relationships \<^verbatim>\<open>Post.likes\<close> and \<^verbatim>\<open>Comment.likes\<close> with their
  \<^verbatim>\<open>primaryjoin\<close> conditions.
\<close>

definition Post_likes :: "database \<Rightarrow> int \<Rightarrow> like list" where
  "Post_likes db k =
     filter (\<lambda>l. like.post_id l = Some k \<and> like.comment_id l = None) (likes db)"

definition Comment_likes :: "database \<Rightarrow> int \<Rightarrow> like list" where
  "Comment_likes db k =
     filter (\<lambda>l. like.comment_id l = Some k \<and> like.post_id l = None) (likes db)"

subsection \<open>Cascading deletes\<close>

text \<open>
  Every relationship is declared with \<^verbatim>\<open>cascade='all, delete-orphan'\<close>: deleting a
  comment deletes its likes, deleting a post deletes its comments and its likes, deleting
  a user deletes the user's posts, comments and likes, each with its own dependants.
\<close>

definition delete_comments :: "(comment \<Rightarrow> bool) \<Rightarrow> database \<Rightarrow> database" where
  "delete_comments doomed db =
     (let gone = map comment.id (filter doomed (comments db)) in
      db\<lparr>comments := filter (\<lambda>c. comment.id c \<notin> set gone) (comments db),
         likes := filter (\<lambda>l. (case like.comment_id l of
                                   None \<Rightarrow> True
                                 | Some k \<Rightarrow> k \<notin> set gone \<or> like.post_id l \<noteq> None))
                         (likes db)\<rparr>)"

definition delete_posts :: "(post \<Rightarrow> bool) \<Rightarrow> database \<Rightarrow> database" where
  "delete_posts doomed db =
     (let gone = map post.id (filter doomed (posts db)) in
      delete_comments (\<lambda>c. comment.post_id c \<in> set gone)
        (db\<lparr>posts := filter (\<lambda>p. post.id p \<notin> set gone) (posts db),
            likes := filter (\<lambda>l. (case like.post_id l of
                                      None \<Rightarrow> True
                                    | Some k \<Rightarrow> k \<notin> set gone \<or> like.comment_id l \<noteq> None))
                            (likes db)\<rparr>))"

definition delete_user_row :: "user \<Rightarrow> database \<Rightarrow> database" where
  "delete_user_row u db =
     delete_posts (\<lambda>p. post.user_id p = user.id u)
       (delete_comments (\<lambda>c. comment.user_id c = user.id u)
          (db\<lparr>users := filter (\<lambda>x. user.id x \<noteq> user.id u) (users db),
              likes := filter (\<lambda>l. like.user_id l \<noteq> user.id u) (likes db)\<rparr>))"

subsection \<open>Clauses of the query language\<close>

text \<open>
  \<^verbatim>\<open>order_by(created_at.desc())\<close> and \<^verbatim>\<open>order_by(created_at.asc())\<close> as stable
  sorts; \<^verbatim>\<open>limit\<close> and \<^verbatim>\<open>offset\<close> as SQLite evaluates them (a negative limit is no
  limit, a negative offset is none).
\<close>

definition posts_newest_first :: "post list \<Rightarrow> post list" where
  "posts_newest_first ps = sort_key (\<lambda>p. - post.created_at p) ps"

definition comments_oldest_first :: "comment list \<Rightarrow> comment list" where
  "comments_oldest_first cs = sort_key comment.created_at cs"

definition sql_limit :: "int \<Rightarrow> 'a list \<Rightarrow> 'a list" where
  "sql_limit n xs = (if n < 0 then xs else take (nat n) xs)"

definition sql_offset :: "int \<Rightarrow> 'a list \<Rightarrow> 'a list" where
  "sql_offset n xs = drop (nat n) xs"

text \<open>
  The \<^verbatim>\<open>LIKE\<close> operator: in the pattern \<open>%\<close> stands for any run of characters and \<open>_\<close>
  for any one character; every other character stands for itself, compared without regard
  to the case of ASCII letters (\<^verbatim>\<open>ilike\<close>). The first argument is the pattern.
\<close>

definition lower :: "char \<Rightarrow> char" where
  "lower c = (let n = (of_char c :: nat) in if 65 \<le> n \<and> n \<le> 90 then char_of (n + 32) else c)"

fun like_match :: "string \<Rightarrow> string \<Rightarrow> bool" where
  "like_match [] s = (s = [])"
| "like_match (p # ps) [] = (p = CHR ''%'' \<and> like_match ps [])"
| "like_match (p # ps) (c # s) =
     (if p = CHR ''%'' then like_match ps (c # s) \<or> like_match (p # ps) s
      else (p = CHR ''_'' \<or> lower p = lower c) \<and> like_match ps s)"

definition ilike :: "string \<Rightarrow> string \<Rightarrow> bool" where
  "ilike column pattern = like_match pattern column"

section \<open>Requests and responses\<close>

text \<open>
  What a handler reads from the request. The \<^verbatim>\<open>Authorization\<close> header is given by
  what \<^verbatim>\<open>jwt.decode\<close> makes of it: the verification of the token is the library's.
  \<open>get_json\<close> is the value of \<^verbatim>\<open>request.get_json()\<close>: \<open>None\<close> is Python's
  \<^verbatim>\<open>None\<close>, and a JSON object is given by the fields the handlers read, at the types
  their docstrings document (a field that is \<open>None\<close> is not in the object).
  \<open>utcnow\<close> is the clock read by \<^verbatim>\<open>datetime.utcnow()\<close>.
\<close>

datatype bearer = NoToken | ExpiredToken | InvalidToken | ValidToken int

record body =
  b_username :: "string option"
  b_email :: "string option"
  b_password :: "string option"
  b_is_admin :: "bool option"
  b_title :: "string option"
  b_content :: "string option"
  b_current_password :: "string option"
  b_new_password :: "string option"

record request =
  authorization :: bearer
  get_json :: "body option"
  arg_page :: "int option"
  arg_per_page :: "int option"
  arg_q :: "string option"
  utcnow :: int

text \<open>
  A response is its status code and the data of its JSON body (the text of messages and
  the presentation of rows by \<^verbatim>\<open>to_dict\<close> are left out). An exception that no
  handler catches is \<open>Raised\<close>.
\<close>

datatype py_error = TypeError | ZeroDivisionError

datatype payload =
    Message
  | UserPayload user
  | UsersPayload "user list"
  | TokenPayload int int user
  | PostPayload post
  | PostsPage "post list" int int int int
  | CommentPayload comment
  | CommentsPayload "comment list"
  | LikePayload bool nat
  | LikesPayload "like list" nat
  | LikedPayload bool
  | ProfilePayload user "post list" nat nat nat
  | SearchPayload "post list" nat string

datatype outcome = Response nat payload | Raised py_error

text \<open>
  A handler maps the committed database to its outcome and the database committed when
  it ends. A handler that returns or raises before \<^verbatim>\<open>db.session.commit()\<close> leaves
  the committed database as it found it: the changes pending in its session are dropped
  with the session.
\<close>

type_synonym handler = "request \<Rightarrow> database \<Rightarrow> outcome \<times> database"

text \<open>\<^verbatim>\<open>not data.get(k)\<close> for a string field: absent or empty.\<close>

definition get_str :: "string option \<Rightarrow> string" where
  "get_str v = (case v of None \<Rightarrow> [] | Some s \<Rightarrow> s)"

section \<open>Decorators\<close>

definition token_required :: "(user \<Rightarrow> handler) \<Rightarrow> handler" where
  "token_required f req db =
     (case authorization req of
        NoToken \<Rightarrow> (Response 401 Message, db)
      | ExpiredToken \<Rightarrow> (Response 401 Message, db)
      | InvalidToken \<Rightarrow> (Response 401 Message, db)
      | ValidToken uid \<Rightarrow>
          (case User_get db uid of
             None \<Rightarrow> (Response 401 Message, db)
           | Some current_user \<Rightarrow> f current_user req db))"

definition admin_required :: "(user \<Rightarrow> handler) \<Rightarrow> user \<Rightarrow> handler" where
  "admin_required f current_user req db =
     (if \<not> user.is_admin current_user then (Response 403 Message, db)
      else f current_user req db)"

section \<open>Authentication routes\<close>

definition register :: "crypto \<Rightarrow> handler" where
  "register K req db =
     (case get_json req of
        None \<Rightarrow> (Response 400 Message, db)
      | Some data \<Rightarrow>
          if get_str (b_username data) = [] then (Response 400 Message, db)
          else if get_str (b_email data) = [] then (Response 400 Message, db)
          else if get_str (b_password data) = [] then (Response 400 Message, db)
          else if find (\<lambda>u. user.username u = get_str (b_username data)) (users db) \<noteq> None
            then (Response 409 Message, db)
          else if find (\<lambda>u. user.email u = get_str (b_email data)) (users db) \<noteq> None
            then (Response 409 Message, db)
          else
            (let new_user =
               \<lparr>user.id = next_id (map user.id (users db)),
                user.username = get_str (b_username data),
                user.email = get_str (b_email data),
                user.password_hash = generate_password_hash K (get_str (b_password data)),
                user.is_admin = (case b_is_admin data of None \<Rightarrow> False | Some a \<Rightarrow> a),
                user.created_at = utcnow req\<rparr>
             in (Response 201 (UserPayload new_user), db\<lparr>users := users db @ [new_user]\<rparr>)))"

text \<open>\<^verbatim>\<open>JWT_EXPIRATION_DELTA\<close> of config.py: 24 hours, in seconds.\<close>

definition JWT_EXPIRATION_DELTA :: int where
  "JWT_EXPIRATION_DELTA = 24 * 3600"

definition login :: "crypto \<Rightarrow> handler" where
  "login K req db =
     (case get_json req of
        None \<Rightarrow> (Response 400 Message, db)
      | Some data \<Rightarrow>
          if get_str (b_username data) = [] then (Response 400 Message, db)
          else if get_str (b_password data) = [] then (Response 400 Message, db)
          else
            (case find (\<lambda>u. user.username u = get_str (b_username data)) (users db) of
               None \<Rightarrow> (Response 401 Message, db)
             | Some u \<Rightarrow>
                 if \<not> check_password_hash K (user.password_hash u) (get_str (b_password data))
                 then (Response 401 Message, db)
                 else (Response 200
                         (TokenPayload (user.id u) (utcnow req + JWT_EXPIRATION_DELTA) u), db)))"

definition get_current_user :: "user \<Rightarrow> handler" where
  "get_current_user current_user req db = (Response 200 (UserPayload current_user), db)"

section \<open>Administration routes\<close>

definition get_all_users :: "user \<Rightarrow> handler" where
  "get_all_users current_user req db = (Response 200 (UsersPayload (users db)), db)"

text \<open>
  The path parameters \<^verbatim>\<open>user_id\<close>, \<^verbatim>\<open>post_id\<close> and \<^verbatim>\<open>comment_id\<close> of the
  routes are written \<open>uid\<close>, \<open>pid\<close> and \<open>cid\<close>.
\<close>

definition delete_user :: "user \<Rightarrow> int \<Rightarrow> handler" where
  "delete_user current_user uid req db =
     (if user.id current_user = uid then (Response 400 Message, db)
      else
        (case User_get db uid of
           None \<Rightarrow> (Response 404 Message, db)
         | Some u \<Rightarrow> (Response 200 Message, delete_user_row u db)))"

text \<open>
  The two blocks that \<^verbatim>\<open>update_user\<close> and \<^verbatim>\<open>update_own_profile\<close> share: the
  uniqueness check of a new username or email against the session \<open>sess\<close>, then the
  assignment to the loaded row. \<open>Inl\<close> is the early return.
\<close>

definition change_username :: "int \<Rightarrow> body \<Rightarrow> user \<Rightarrow> database \<Rightarrow> outcome + user" where
  "change_username uid data u sess =
     (case b_username data of
        None \<Rightarrow> Inr u
      | Some name \<Rightarrow>
          (case find (\<lambda>x. user.username x = name) (users sess) of
             None \<Rightarrow> Inr (u\<lparr>user.username := name\<rparr>)
           | Some existing \<Rightarrow>
               if user.id existing \<noteq> uid then Inl (Response 409 Message)
               else Inr (u\<lparr>user.username := name\<rparr>)))"

definition change_email :: "int \<Rightarrow> body \<Rightarrow> user \<Rightarrow> database \<Rightarrow> outcome + user" where
  "change_email uid data u sess =
     (case b_email data of
        None \<Rightarrow> Inr u
      | Some addr \<Rightarrow>
          (case find (\<lambda>x. user.email x = addr) (users sess) of
             None \<Rightarrow> Inr (u\<lparr>user.email := addr\<rparr>)
           | Some existing \<Rightarrow>
               if user.id existing \<noteq> uid then Inl (Response 409 Message)
               else Inr (u\<lparr>user.email := addr\<rparr>)))"

text \<open>
  \<^verbatim>\<open>update_user\<close> assigns the username to the loaded row before it checks the email,
  and the email before it checks \<^verbatim>\<open>is_admin\<close>: each later query runs on the session
  with the earlier assignments pending (\<open>put_user db u1\<close>), and only the last line commits.
\<close>

definition update_user :: "crypto \<Rightarrow> user \<Rightarrow> int \<Rightarrow> handler" where
  "update_user K current_user uid req db =
     (case User_get db uid of
        None \<Rightarrow> (Response 404 Message, db)
      | Some u \<Rightarrow>
          (case get_json req of
             None \<Rightarrow> (Raised TypeError, db)
           | Some data \<Rightarrow>
               (case change_username uid data u db of
                  Inl r \<Rightarrow> (r, db)
                | Inr u1 \<Rightarrow>
                    (case change_email uid data u1 (put_user db u1) of
                       Inl r \<Rightarrow> (r, db)
                     | Inr u2 \<Rightarrow>
                         (case b_is_admin data of
                            Some a \<Rightarrow>
                              if user.id current_user = uid then (Response 400 Message, db)
                              else
                                (let u3 = u2\<lparr>user.is_admin := a\<rparr>;
                                     u4 = (if get_str (b_password data) = [] then u3
                                           else u3\<lparr>user.password_hash :=
                                                  generate_password_hash K (get_str (b_password data))\<rparr>)
                                 in (Response 200 (UserPayload u4), put_user db u4))
                          | None \<Rightarrow>
                              (let u4 = (if get_str (b_password data) = [] then u2
                                         else u2\<lparr>user.password_hash :=
                                                generate_password_hash K (get_str (b_password data))\<rparr>)
                               in (Response 200 (UserPayload u4), put_user db u4)))))))"

section \<open>Post routes\<close>

text \<open>
  \<^verbatim>\<open>request.args.get('page', 1, type=int)\<close>: the default also stands for a value that
  is not an integer. The division of \<^verbatim>\<open>total_pages\<close> is Python's floor division,
  which raises on a zero divisor.
\<close>

definition total_pages :: "int \<Rightarrow> int \<Rightarrow> int" where
  "total_pages n per_page = (n + per_page - 1) div per_page"

definition get_posts :: handler where
  "get_posts req db =
     (let page = (case arg_page req of None \<Rightarrow> 1 | Some n \<Rightarrow> n);
          per_page = (case arg_per_page req of None \<Rightarrow> 10 | Some n \<Rightarrow> n);
          posts_query = posts_newest_first (posts db);
          n_total = int (length posts_query);
          page_posts = sql_limit per_page (sql_offset ((page - 1) * per_page) posts_query)
      in if per_page = 0 then (Raised ZeroDivisionError, db)
         else (Response 200
                 (PostsPage page_posts n_total page per_page (total_pages n_total per_page)), db))"

definition get_post :: "int \<Rightarrow> handler" where
  "get_post pid req db =
     (case Post_get db pid of
        None \<Rightarrow> (Response 404 Message, db)
      | Some p \<Rightarrow> (Response 200 (PostPayload p), db))"

definition create_post :: "user \<Rightarrow> handler" where
  "create_post current_user req db =
     (case get_json req of
        None \<Rightarrow> (Response 400 Message, db)
      | Some data \<Rightarrow>
          if get_str (b_title data) = [] then (Response 400 Message, db)
          else if get_str (b_content data) = [] then (Response 400 Message, db)
          else
            (let new_post =
               \<lparr>post.id = next_id (map post.id (posts db)),
                post.title = get_str (b_title data),
                post.content = get_str (b_content data),
                post.user_id = user.id current_user,
                post.created_at = utcnow req,
                post.updated_at = utcnow req\<rparr>
             in (Response 201 (PostPayload new_post), db\<lparr>posts := posts db @ [new_post]\<rparr>)))"

definition update_post :: "user \<Rightarrow> int \<Rightarrow> handler" where
  "update_post current_user pid req db =
     (case Post_get db pid of
        None \<Rightarrow> (Response 404 Message, db)
      | Some p \<Rightarrow>
          if post.user_id p \<noteq> user.id current_user \<and> \<not> user.is_admin current_user
          then (Response 403 Message, db)
          else
            (case get_json req of
               None \<Rightarrow> (Raised TypeError, db)
             | Some data \<Rightarrow>
                 (let p1 = (case b_title data of None \<Rightarrow> p | Some t \<Rightarrow> p\<lparr>post.title := t\<rparr>);
                      p2 = (case b_content data of None \<Rightarrow> p1 | Some c \<Rightarrow> p1\<lparr>post.content := c\<rparr>);
                      p3 = p2\<lparr>post.updated_at := utcnow req\<rparr>
                  in (Response 200 (PostPayload p3), put_post db p3))))"

definition delete_post :: "user \<Rightarrow> int \<Rightarrow> handler" where
  "delete_post current_user pid req db =
     (case Post_get db pid of
        None \<Rightarrow> (Response 404 Message, db)
      | Some p \<Rightarrow>
          if post.user_id p \<noteq> user.id current_user \<and> \<not> user.is_admin current_user
          then (Response 403 Message, db)
          else (Response 200 Message, delete_posts (\<lambda>x. post.id x = post.id p) db))"

section \<open>Comment routes\<close>

definition get_comments :: "int \<Rightarrow> handler" where
  "get_comments pid req db =
     (case Post_get db pid of
        None \<Rightarrow> (Response 404 Message, db)
      | Some p \<Rightarrow>
          (Response 200
             (CommentsPayload
                (comments_oldest_first (filter (\<lambda>c. comment.post_id c = pid) (comments db)))),
           db))"

definition create_comment :: "user \<Rightarrow> int \<Rightarrow> handler" where
  "create_comment current_user pid req db =
     (case Post_get db pid of
        None \<Rightarrow> (Response 404 Message, db)
      | Some p \<Rightarrow>
          (case get_json req of
             None \<Rightarrow> (Response 400 Message, db)
           | Some data \<Rightarrow>
               if get_str (b_content data) = [] then (Response 400 Message, db)
               else
                 (let new_comment =
                    \<lparr>comment.id = next_id (map comment.id (comments db)),
                     comment.content = get_str (b_content data),
                     comment.user_id = user.id current_user,
                     comment.post_id = pid,
                     comment.created_at = utcnow req,
                     comment.updated_at = utcnow req\<rparr>
                  in (Response 201 (CommentPayload new_comment),
                      db\<lparr>comments := comments db @ [new_comment]\<rparr>))))"

definition update_comment :: "user \<Rightarrow> int \<Rightarrow> handler" where
  "update_comment current_user cid req db =
     (case Comment_get db cid of
        None \<Rightarrow> (Response 404 Message, db)
      | Some c \<Rightarrow>
          if comment.user_id c \<noteq> user.id current_user \<and> \<not> user.is_admin current_user
          then (Response 403 Message, db)
          else
            (case get_json req of
               None \<Rightarrow> (Response 400 Message, db)
             | Some data \<Rightarrow>
                 if get_str (b_content data) = [] then (Response 400 Message, db)
                 else
                   (let c1 = c\<lparr>comment.content := get_str (b_content data),
                                comment.updated_at := utcnow req\<rparr>
                    in (Response 200 (CommentPayload c1), put_comment db c1))))"

definition delete_comment :: "user \<Rightarrow> int \<Rightarrow> handler" where
  "delete_comment current_user cid req db =
     (case Comment_get db cid of
        None \<Rightarrow> (Response 404 Message, db)
      | Some c \<Rightarrow>
          if comment.user_id c \<noteq> user.id current_user \<and> \<not> user.is_admin current_user
          then (Response 403 Message, db)
          else (Response 200 Message, delete_comments (\<lambda>x. comment.id x = comment.id c) db))"

section \<open>Like routes\<close>

text \<open>
  \<^verbatim>\<open>filter_by(...).first()\<close> is the first matching row; \<^verbatim>\<open>db.session.delete\<close> of a
  like removes the row with its primary key. \<^verbatim>\<open>likes_count\<close> is counted on the database
  after the commit.
\<close>

definition likes_count_post :: "database \<Rightarrow> int \<Rightarrow> nat" where
  "likes_count_post db pid = length (filter (\<lambda>l. like.comment_id l = None) (Post_likes db pid))"

definition likes_count_comment :: "database \<Rightarrow> int \<Rightarrow> nat" where
  "likes_count_comment db cid = length (filter (\<lambda>l. like.post_id l = None) (Comment_likes db cid))"

definition toggle_post_like :: "user \<Rightarrow> int \<Rightarrow> handler" where
  "toggle_post_like current_user pid req db =
     (case Post_get db pid of
        None \<Rightarrow> (Response 404 Message, db)
      | Some p \<Rightarrow>
          (case find (\<lambda>l. like.user_id l = user.id current_user \<and> like.post_id l = Some pid
                          \<and> like.comment_id l = None) (likes db) of
             Some existing_like \<Rightarrow>
               (let db' = db\<lparr>likes := filter (\<lambda>l. like.id l \<noteq> like.id existing_like) (likes db)\<rparr>
                in (Response 200 (LikePayload False (likes_count_post db' (post.id p))), db'))
           | None \<Rightarrow>
               (let new_like =
                  \<lparr>like.id = next_id (map like.id (likes db)),
                   like.user_id = user.id current_user,
                   like.post_id = Some pid,
                   like.comment_id = None,
                   like.created_at = utcnow req\<rparr>;
                    db' = db\<lparr>likes := likes db @ [new_like]\<rparr>
                in (Response 201 (LikePayload True (likes_count_post db' (post.id p))), db'))))"

definition toggle_comment_like :: "user \<Rightarrow> int \<Rightarrow> handler" where
  "toggle_comment_like current_user cid req db =
     (case Comment_get db cid of
        None \<Rightarrow> (Response 404 Message, db)
      | Some c \<Rightarrow>
          (case find (\<lambda>l. like.user_id l = user.id current_user \<and> like.comment_id l = Some cid
                          \<and> like.post_id l = None) (likes db) of
             Some existing_like \<Rightarrow>
               (let db' = db\<lparr>likes := filter (\<lambda>l. like.id l \<noteq> like.id existing_like) (likes db)\<rparr>
                in (Response 200 (LikePayload False (likes_count_comment db' (comment.id c))), db'))
           | None \<Rightarrow>
               (let new_like =
                  \<lparr>like.id = next_id (map like.id (likes db)),
                   like.user_id = user.id current_user,
                   like.post_id = None,
                   like.comment_id = Some cid,
                   like.created_at = utcnow req\<rparr>;
                    db' = db\<lparr>likes := likes db @ [new_like]\<rparr>
                in (Response 201 (LikePayload True (likes_count_comment db' (comment.id c))), db'))))"

definition get_post_likes :: "int \<Rightarrow> handler" where
  "get_post_likes pid req db =
     (case Post_get db pid of
        None \<Rightarrow> (Response 404 Message, db)
      | Some p \<Rightarrow>
          (let ls = filter (\<lambda>l. like.post_id l = Some pid \<and> like.comment_id l = None) (likes db)
           in (Response 200 (LikesPayload ls (length ls)), db)))"

definition get_comment_likes :: "int \<Rightarrow> handler" where
  "get_comment_likes cid req db =
     (case Comment_get db cid of
        None \<Rightarrow> (Response 404 Message, db)
      | Some c \<Rightarrow>
          (let ls = filter (\<lambda>l. like.comment_id l = Some cid \<and> like.post_id l = None) (likes db)
           in (Response 200 (LikesPayload ls (length ls)), db)))"

definition check_user_liked_post :: "user \<Rightarrow> int \<Rightarrow> handler" where
  "check_user_liked_post current_user pid req db =
     (case Post_get db pid of
        None \<Rightarrow> (Response 404 Message, db)
      | Some p \<Rightarrow>
          (Response 200
             (LikedPayload
                (find (\<lambda>l. like.user_id l = user.id current_user \<and> like.post_id l = Some pid
                           \<and> like.comment_id l = None) (likes db) \<noteq> None)), db))"

definition check_user_liked_comment :: "user \<Rightarrow> int \<Rightarrow> handler" where
  "check_user_liked_comment current_user cid req db =
     (case Comment_get db cid of
        None \<Rightarrow> (Response 404 Message, db)
      | Some c \<Rightarrow>
          (Response 200
             (LikedPayload
                (find (\<lambda>l. like.user_id l = user.id current_user \<and> like.comment_id l = Some cid
                           \<and> like.post_id l = None) (likes db) \<noteq> None)), db))"

section \<open>Profile routes\<close>

definition get_user_profile :: "int \<Rightarrow> handler" where
  "get_user_profile uid req db =
     (case User_get db uid of
        None \<Rightarrow> (Response 404 Message, db)
      | Some u \<Rightarrow>
          (let recent = sql_limit 10
                 (posts_newest_first (filter (\<lambda>p. post.user_id p = uid) (posts db)));
               total_posts = length (filter (\<lambda>p. post.user_id p = uid) (posts db));
               total_comments = length (filter (\<lambda>c. comment.user_id c = uid) (comments db));
               total_likes = length (filter (\<lambda>l. like.user_id l = uid) (likes db))
           in (Response 200 (ProfilePayload u recent total_posts total_comments total_likes), db)))"

definition update_own_profile :: "user \<Rightarrow> handler" where
  "update_own_profile current_user req db =
     (case get_json req of
        None \<Rightarrow> (Raised TypeError, db)
      | Some data \<Rightarrow>
          (case change_username (user.id current_user) data current_user db of
             Inl r \<Rightarrow> (r, db)
           | Inr u1 \<Rightarrow>
               (case change_email (user.id current_user) data u1 (put_user db u1) of
                  Inl r \<Rightarrow> (r, db)
                | Inr u2 \<Rightarrow> (Response 200 (UserPayload u2), put_user db u2))))"

definition update_password :: "crypto \<Rightarrow> user \<Rightarrow> handler" where
  "update_password K current_user req db =
     (case get_json req of
        None \<Rightarrow> (Response 400 Message, db)
      | Some data \<Rightarrow>
          if get_str (b_current_password data) = [] then (Response 400 Message, db)
          else if get_str (b_new_password data) = [] then (Response 400 Message, db)
          else if \<not> check_password_hash K (user.password_hash current_user)
                      (get_str (b_current_password data))
            then (Response 401 Message, db)
          else if length (get_str (b_new_password data)) < 6 then (Response 400 Message, db)
          else (Response 200 Message,
                put_user db (current_user\<lparr>user.password_hash :=
                   generate_password_hash K (get_str (b_new_password data))\<rparr>)))"

section \<open>Search route\<close>

definition search_posts :: handler where
  "search_posts req db =
     (let query = (case arg_q req of None \<Rightarrow> [] | Some q \<Rightarrow> q) in
      if query = [] \<or> length query < 2 then (Response 400 Message, db)
      else
        (let search_pattern = ''%'' @ query @ ''%'';
             found = sql_limit 50
               (posts_newest_first
                  (filter (\<lambda>p. ilike (post.title p) search_pattern
                                \<or> ilike (post.content p) search_pattern) (posts db)))
         in (Response 200 (SearchPayload found (length found) query), db)))"

section \<open>Initialisation and routing\<close>

text \<open>
  \<^verbatim>\<open>create_tables\<close> runs before the first request of a process: on a database without
  users it commits the default administrator.
\<close>

definition create_tables :: "crypto \<Rightarrow> int \<Rightarrow> database \<Rightarrow> database" where
  "create_tables K now db =
     (if length (users db) = 0
      then db\<lparr>users := users db @
                [\<lparr>user.id = next_id (map user.id (users db)),
                  user.username = ''admin'',
                  user.email = ''admin@example.com'',
                  user.password_hash = generate_password_hash K ''admin123'',
                  user.is_admin = True,
                  user.created_at = now\<rparr>]\<rparr>
      else db)"

text \<open>The routes of \<^verbatim>\<open>app.py\<close>, each with the decorators of its handler.\<close>

datatype route =
    POST_register
  | POST_login
  | GET_me
  | GET_admin_users
  | DELETE_admin_user int
  | PUT_admin_user int
  | GET_posts
  | GET_post int
  | POST_posts
  | PUT_post int
  | DELETE_post int
  | GET_comments int
  | POST_comments int
  | PUT_comment int
  | DELETE_comment int
  | POST_post_like int
  | POST_comment_like int
  | GET_post_likes int
  | GET_comment_likes int
  | GET_post_user_liked int
  | GET_comment_user_liked int
  | GET_user_profile int
  | PUT_profile
  | PUT_profile_password
  | GET_posts_search

fun app :: "crypto \<Rightarrow> route \<Rightarrow> handler" where
  "app K POST_register = register K"
| "app K POST_login = login K"
| "app K GET_me = token_required get_current_user"
| "app K GET_admin_users = token_required (admin_required get_all_users)"
| "app K (DELETE_admin_user uid) = token_required (admin_required (\<lambda>cu. delete_user cu uid))"
| "app K (PUT_admin_user uid) = token_required (admin_required (\<lambda>cu. update_user K cu uid))"
| "app K GET_posts = get_posts"
| "app K (GET_post pid) = get_post pid"
| "app K POST_posts = token_required create_post"
| "app K (PUT_post pid) = token_required (\<lambda>cu. update_post cu pid)"
| "app K (DELETE_post pid) = token_required (\<lambda>cu. delete_post cu pid)"
| "app K (GET_comments pid) = get_comments pid"
| "app K (POST_comments pid) = token_required (\<lambda>cu. create_comment cu pid)"
| "app K (PUT_comment cid) = token_required (\<lambda>cu. update_comment cu cid)"
| "app K (DELETE_comment cid) = token_required (\<lambda>cu. delete_comment cu cid)"
| "app K (POST_post_like pid) = token_required (\<lambda>cu. toggle_post_like cu pid)"
| "app K (POST_comment_like cid) = token_required (\<lambda>cu. toggle_comment_like cu cid)"
| "app K (GET_post_likes pid) = get_post_likes pid"
| "app K (GET_comment_likes cid) = get_comment_likes cid"
| "app K (GET_post_user_liked pid) = token_required (\<lambda>cu. check_user_liked_post cu pid)"
| "app K (GET_comment_user_liked cid) = token_required (\<lambda>cu. check_user_liked_comment cu cid)"
| "app K (GET_user_profile uid) = get_user_profile uid"
| "app K PUT_profile = token_required update_own_profile"
| "app K PUT_profile_password = token_required (update_password K)"
| "app K GET_posts_search = search_posts"

text \<open>
  The databases the application can be in: the one \<^verbatim>\<open>create_tables\<close> makes of the empty
  database, and the one any request, or a restart of the process, makes of a reachable one.
\<close>

inductive reachable :: "crypto \<Rightarrow> database \<Rightarrow> bool" for K :: crypto where
  start: "reachable K (create_tables K now empty_db)"
| restart: "reachable K db \<Longrightarrow> reachable K (create_tables K now db)"
| request: "reachable K db \<Longrightarrow> reachable K (snd (app K r req db))"

section \<open>Constraints of the likes table\<close>

text \<open>
  The two table constraints of \<^verbatim>\<open>Like.__table_args__\<close>: the check constraint
  \<^verbatim>\<open>check_like_target\<close>, and the columns of \<^verbatim>\<open>unique_user_like\<close> as the key of a
  like. \<open>likes_ok\<close> is what the theorems below show of every reachable database: each like
  has one target, no two likes have the same user and target, and no two the same primary
  key. \<open>like_state\<close> is who likes what.
\<close>

definition check_like_target :: "like \<Rightarrow> bool" where
  "check_like_target l =
     ((like.post_id l \<noteq> None \<and> like.comment_id l = None)
      \<or> (like.post_id l = None \<and> like.comment_id l \<noteq> None))"

definition like_key :: "like \<Rightarrow> int \<times> int option \<times> int option" where
  "like_key l = (like.user_id l, like.post_id l, like.comment_id l)"

definition likes_ok :: "database \<Rightarrow> bool" where
  "likes_ok db =
     (list_all check_like_target (likes db)
      \<and> distinct (map like_key (likes db))
      \<and> distinct (map like.id (likes db)))"

definition like_state :: "database \<Rightarrow> (int \<times> int option \<times> int option) set" where
  "like_state db = set (map like_key (likes db))"

section \<open>Outcomes that commit\<close>

text \<open>
  A successful outcome is a response with a 2xx status. \<open>commits_only_on_success r db\<close>:
  the result \<open>r\<close> of a handler run on \<open>db\<close> is successful or leaves \<open>db\<close> as it was.
\<close>

definition success :: "outcome \<Rightarrow> bool" where
  "success out = (case out of Response st _ \<Rightarrow> 200 \<le> st \<and> st < 300 | Raised _ \<Rightarrow> False)"

definition commits_only_on_success :: "outcome \<times> database \<Rightarrow> database \<Rightarrow> bool" where
  "commits_only_on_success r db = (success (fst r) \<or> snd r = db)"

section \<open>Sample data\<close>

text \<open>A small database and some requests, on which the theorems below are instantiated.\<close>

definition K0 :: crypto where
  "K0 = \<lparr>generate_password_hash = (\<lambda>pw. ''h:'' @ pw),
          check_password_hash = (\<lambda>h pw. h = ''h:'' @ pw)\<rparr>"

definition alice :: user where
  "alice = \<lparr>user.id = 1, user.username = ''admin'', user.email = ''admin@example.com'',
            user.password_hash = ''h:admin123'', user.is_admin = True, user.created_at = 0\<rparr>"

definition bob :: user where
  "bob = \<lparr>user.id = 2, user.username = ''bob'', user.email = ''bob@example.com'',
          user.password_hash = ''h:secret'', user.is_admin = False, user.created_at = 10\<rparr>"

definition carol :: user where
  "carol = \<lparr>user.id = 3, user.username = ''carol'', user.email = ''carol@example.com'',
            user.password_hash = ''h:hunter2'', user.is_admin = False, user.created_at = 20\<rparr>"

definition post1 :: post where
  "post1 = \<lparr>post.id = 1, post.title = ''Hello Flask'', post.content = ''first post'',
            post.user_id = 2, post.created_at = 30, post.updated_at = 30\<rparr>"

definition post2 :: post where
  "post2 = \<lparr>post.id = 2, post.title = ''React'', post.content = ''about hooks'',
            post.user_id = 3, post.created_at = 50, post.updated_at = 50\<rparr>"

definition post3 :: post where
  "post3 = \<lparr>post.id = 3, post.title = ''SQL'', post.content = ''joins in flask'',
            post.user_id = 2, post.created_at = 40, post.updated_at = 40\<rparr>"

definition comment1 :: comment where
  "comment1 = \<lparr>comment.id = 1, comment.content = ''nice'', comment.user_id = 3,
               comment.post_id = 1, comment.created_at = 60, comment.updated_at = 60\<rparr>"

definition like1 :: like where
  "like1 = \<lparr>like.id = 1, like.user_id = 3, like.post_id = Some 1, like.comment_id = None,
            like.created_at = 70\<rparr>"

definition like2 :: like where
  "like2 = \<lparr>like.id = 2, like.user_id = 2, like.post_id = None, like.comment_id = Some 1,
            like.created_at = 80\<rparr>"

definition forum :: database where
  "forum = \<lparr>users = [alice, bob, carol], posts = [post1, post2, post3],
            comments = [comment1], likes = [like1, like2]\<rparr>"

definition no_body :: body where
  "no_body = \<lparr>b_username = None, b_email = None, b_password = None, b_is_admin = None,
              b_title = None, b_content = None, b_current_password = None,
              b_new_password = None\<rparr>"

definition mallory :: body where
  "mallory = no_body\<lparr>b_username := Some ''mallory'', b_email := Some ''mallory@example.com'',
                      b_password := Some ''letmein'', b_is_admin := Some True\<rparr>"

definition rename_bob :: body where
  "rename_bob = no_body\<lparr>b_username := Some ''robert'', b_email := Some ''carol@example.com''\<rparr>"



definition anonymous :: request where
  "anonymous = \<lparr>authorization = NoToken, get_json = None, arg_page = None,
                arg_per_page = None, arg_q = None, utcnow = 100\<rparr>"



text \<open>A database of 51 posts, each with the title \<open>ab\<close>.\<close>

definition crowd :: database where
  "crowd = empty_db\<lparr>posts :=
     map (\<lambda>i. \<lparr>post.id = int i, post.title = ''ab'', post.content = ''cd'', post.user_id = 1,
                post.created_at = int i, post.updated_at = int i\<rparr>) [1..<52]\<rparr>"

text \<open>
  Reachable databases: the first start of the application (\<open>forum0\<close>), then a post of
  the administrator (\<open>forum1\<close>), a comment of the administrator on it (\<open>forum2\<close>), and the
  administrator's like of the post (\<open>forum3\<close>).
\<close>

definition forum0 :: database where
  "forum0 = create_tables K0 0 empty_db"

definition as_admin :: request where
  "as_admin = anonymous\<lparr>authorization := ValidToken 1\<rparr>"

definition forum1 :: database where
  "forum1 = snd (app K0 POST_posts
      (as_admin\<lparr>get_json := Some (no_body\<lparr>b_title := Some ''Hi'', b_content := Some ''all''\<rparr>)\<rparr>)
      forum0)"

definition forum2 :: database where
  "forum2 = snd (app K0 (POST_comments 1)
      (as_admin\<lparr>get_json := Some (no_body\<lparr>b_content := Some ''first''\<rparr>)\<rparr>) forum1)"

definition forum3 :: database where
  "forum3 = snd (app K0 (POST_post_like 1) as_admin forum2)"

section \<open>Pagination\<close>





section \<open>The likes table in every reachable database\<close>

lemma fold_max_ge: "(a::int) \<le> fold max ks a"
  by (induction ks arbitrary: a) (auto intro: order_trans [OF max.cobounded2])

lemma fold_max_mem: "k \<in> set ks \<Longrightarrow> (k::int) \<le> fold max ks a"
proof (induction ks arbitrary: a)
  case Nil
  then show ?case by simp
next
  case (Cons x xs)
  show ?case
  proof (cases "k = x")
    case True
    have "x \<le> max x a" by simp
    also have "\<dots> \<le> fold max xs (max x a)" by (rule fold_max_ge)
    finally show ?thesis using True by simp
  next
    case False
    with Cons show ?thesis by simp
  qed
qed

lemma next_id_fresh: "k \<in> set ks \<Longrightarrow> k < next_id ks"
  using fold_max_mem [of k ks 0] by (simp add: next_id_def)

lemma next_id_notin: "next_id ks \<notin> set ks"
  using next_id_fresh [of "next_id ks" ks] by auto

lemma likes_ok_filter:
  assumes "likes_ok db" and "likes db' = filter P (likes db)"
  shows "likes_ok db'"
  using assms by (simp add: likes_ok_def list_all_iff distinct_map_filter)

lemma likes_ok_same: "likes_ok db \<Longrightarrow> likes db' = likes db \<Longrightarrow> likes_ok db'"
  by (simp add: likes_ok_def)

lemma likes_ok_snoc:
  assumes "likes_ok db" and "likes db' = likes db @ [l]" and "check_like_target l"
    and "like_key l \<notin> set (map like_key (likes db))"
    and "like.id l \<notin> set (map like.id (likes db))"
  shows "likes_ok db'"
  using assms by (simp add: likes_ok_def)

lemma likes_ok_delete_comments: "likes_ok db \<Longrightarrow> likes_ok (delete_comments d db)"
  by (rule likes_ok_filter) (auto simp: delete_comments_def Let_def)

lemma likes_ok_delete_posts: "likes_ok db \<Longrightarrow> likes_ok (delete_posts d db)"
  unfolding delete_posts_def Let_def
  by (rule likes_ok_delete_comments, rule likes_ok_filter) auto

lemma likes_ok_delete_user_row: "likes_ok db \<Longrightarrow> likes_ok (delete_user_row u db)"
  unfolding delete_user_row_def
  by (rule likes_ok_delete_posts, rule likes_ok_delete_comments, rule likes_ok_filter) auto

lemma likes_put_user [simp]: "likes (put_user db u) = likes db"
  by (simp add: put_user_def)

lemma likes_put_post [simp]: "likes (put_post db p) = likes db"
  by (simp add: put_post_def)

lemma likes_put_comment [simp]: "likes (put_comment db c) = likes db"
  by (simp add: put_comment_def)

lemma likes_ok_register: "likes_ok db \<Longrightarrow> likes_ok (snd (register K req db))"
  by (auto simp: register_def likes_ok_def Let_def split: option.splits)

lemma likes_ok_login: "likes_ok db \<Longrightarrow> likes_ok (snd (login K req db))"
  by (auto simp: login_def split: option.splits)

lemma likes_ok_delete_user: "likes_ok db \<Longrightarrow> likes_ok (snd (delete_user cu uid req db))"
  by (auto simp: delete_user_def likes_ok_delete_user_row split: option.splits)

lemma likes_ok_update_user: "likes_ok db \<Longrightarrow> likes_ok (snd (update_user K cu uid req db))"
  by (auto simp: update_user_def likes_ok_def Let_def split: option.splits sum.splits)

lemma likes_ok_create_post: "likes_ok db \<Longrightarrow> likes_ok (snd (create_post cu req db))"
  by (auto simp: create_post_def likes_ok_def Let_def split: option.splits)

lemma likes_ok_update_post: "likes_ok db \<Longrightarrow> likes_ok (snd (update_post cu pid req db))"
  by (auto simp: update_post_def likes_ok_def Let_def split: option.splits)

lemma likes_ok_delete_post: "likes_ok db \<Longrightarrow> likes_ok (snd (delete_post cu pid req db))"
  by (auto simp: delete_post_def likes_ok_delete_posts split: option.splits)

lemma likes_ok_create_comment: "likes_ok db \<Longrightarrow> likes_ok (snd (create_comment cu pid req db))"
  by (auto simp: create_comment_def likes_ok_def Let_def split: option.splits)

lemma likes_ok_update_comment: "likes_ok db \<Longrightarrow> likes_ok (snd (update_comment cu cid req db))"
  by (auto simp: update_comment_def likes_ok_def Let_def split: option.splits)

lemma likes_ok_delete_comment: "likes_ok db \<Longrightarrow> likes_ok (snd (delete_comment cu cid req db))"
  by (auto simp: delete_comment_def likes_ok_delete_comments split: option.splits)

lemma likes_ok_update_own_profile: "likes_ok db \<Longrightarrow> likes_ok (snd (update_own_profile cu req db))"
  by (auto simp: update_own_profile_def likes_ok_def split: option.splits sum.splits)

lemma likes_ok_update_password: "likes_ok db \<Longrightarrow> likes_ok (snd (update_password K cu req db))"
  by (auto simp: update_password_def likes_ok_def split: option.splits)

lemma likes_ok_toggle_post_like:
  assumes "likes_ok db"
  shows "likes_ok (snd (toggle_post_like cu pid req db))"
proof (cases "Post_get db pid")
  case None
  with assms show ?thesis by (simp add: toggle_post_like_def)
next
  case (Some p)
  let ?m = "\<lambda>l. like.user_id l = user.id cu \<and> like.post_id l = Some pid \<and> like.comment_id l = None"
  show ?thesis
  proof (cases "find ?m (likes db)")
    case None
    then have fresh: "\<forall>l \<in> set (likes db). \<not> ?m l"
      by (simp add: find_None_iff)
    let ?new = "\<lparr>like.id = next_id (map like.id (likes db)), like.user_id = user.id cu,
                  like.post_id = Some pid, like.comment_id = None, like.created_at = utcnow req\<rparr>"
    have "likes_ok (db\<lparr>likes := likes db @ [?new]\<rparr>)"
    proof (rule likes_ok_snoc [OF assms])
      show "like_key ?new \<notin> set (map like_key (likes db))"
        using fresh by (auto simp: like_key_def)
      show "like.id ?new \<notin> set (map like.id (likes db))"
        using next_id_notin [of "map like.id (likes db)"] by simp
    qed (simp_all add: check_like_target_def)
    with Some None show ?thesis by (simp add: toggle_post_like_def Let_def)
  next
    case (Some e)
    have "likes_ok (db\<lparr>likes := filter (\<lambda>l. like.id l \<noteq> like.id e) (likes db)\<rparr>)"
      by (rule likes_ok_filter [OF assms]) simp
    with Some \<open>Post_get db pid = Some p\<close> show ?thesis
      by (simp add: toggle_post_like_def Let_def)
  qed
qed

lemma likes_ok_toggle_comment_like:
  assumes "likes_ok db"
  shows "likes_ok (snd (toggle_comment_like cu cid req db))"
proof (cases "Comment_get db cid")
  case None
  with assms show ?thesis by (simp add: toggle_comment_like_def)
next
  case (Some c)
  let ?m = "\<lambda>l. like.user_id l = user.id cu \<and> like.comment_id l = Some cid \<and> like.post_id l = None"
  show ?thesis
  proof (cases "find ?m (likes db)")
    case None
    then have fresh: "\<forall>l \<in> set (likes db). \<not> ?m l"
      by (simp add: find_None_iff)
    let ?new = "\<lparr>like.id = next_id (map like.id (likes db)), like.user_id = user.id cu,
                  like.post_id = None, like.comment_id = Some cid, like.created_at = utcnow req\<rparr>"
    have "likes_ok (db\<lparr>likes := likes db @ [?new]\<rparr>)"
    proof (rule likes_ok_snoc [OF assms])
      show "like_key ?new \<notin> set (map like_key (likes db))"
        using fresh by (auto simp: like_key_def)
      show "like.id ?new \<notin> set (map like.id (likes db))"
        using next_id_notin [of "map like.id (likes db)"] by simp
    qed (simp_all add: check_like_target_def)
    with Some None show ?thesis by (simp add: toggle_comment_like_def Let_def)
  next
    case (Some e)
    have "likes_ok (db\<lparr>likes := filter (\<lambda>l. like.id l \<noteq> like.id e) (likes db)\<rparr>)"
      by (rule likes_ok_filter [OF assms]) simp
    with Some \<open>Comment_get db cid = Some c\<close> show ?thesis
      by (simp add: toggle_comment_like_def Let_def)
  qed
qed

lemma likes_ok_read_only:
  "snd (get_current_user cu req db) = db"
  "snd (get_all_users cu req db) = db"
  "snd (get_posts req db) = db"
  "snd (get_post pid req db) = db"
  "snd (get_comments pid req db) = db"
  "snd (get_post_likes pid req db) = db"
  "snd (get_comment_likes cid req db) = db"
  "snd (check_user_liked_post cu pid req db) = db"
  "snd (check_user_liked_comment cu cid req db) = db"
  "snd (get_user_profile uid req db) = db"
  "snd (search_posts req db) = db"
  by (simp_all add: get_current_user_def get_all_users_def get_posts_def get_post_def
      get_comments_def get_post_likes_def get_comment_likes_def check_user_liked_post_def
      check_user_liked_comment_def get_user_profile_def search_posts_def Let_def
      split: option.splits)

lemma likes_ok_token_required:
  assumes "likes_ok db" and "\<And>cu. likes_ok (snd (f cu req db))"
  shows "likes_ok (snd (token_required f req db))"
  using assms by (simp add: token_required_def split: bearer.splits option.splits)

lemma likes_ok_admin_required:
  assumes "likes_ok db" and "likes_ok (snd (f cu req db))"
  shows "likes_ok (snd (admin_required f cu req db))"
  using assms by (simp add: admin_required_def)

lemma likes_ok_app:
  assumes "likes_ok db"
  shows "likes_ok (snd (app K r req db))"
  using assms
  by (cases r)
    (simp_all add: likes_ok_token_required likes_ok_admin_required likes_ok_read_only
      likes_ok_register likes_ok_login likes_ok_delete_user likes_ok_update_user
      likes_ok_create_post likes_ok_update_post likes_ok_delete_post likes_ok_create_comment
      likes_ok_update_comment likes_ok_delete_comment likes_ok_toggle_post_like
      likes_ok_toggle_comment_like likes_ok_update_own_profile likes_ok_update_password)

lemma likes_ok_create_tables: "likes_ok db \<Longrightarrow> likes_ok (create_tables K now db)"
  by (auto simp: create_tables_def likes_ok_def)

lemma reachable_likes_ok: "reachable K db \<Longrightarrow> likes_ok db"
proof (induction rule: reachable.induct)
  case (start now)
  show ?case by (rule likes_ok_create_tables) (simp add: likes_ok_def empty_db_def)
next
  case (restart db now)
  then show ?case by (simp add: likes_ok_create_tables)
next
  case (request db r req)
  then show ?case by (simp add: likes_ok_app)
qed

lemma distinct_key_count:
  "distinct (map f xs) \<Longrightarrow> length (filter (\<lambda>x. f x = v) xs) \<le> 1"
proof (induction xs)
  case Nil
  then show ?case by simp
next
  case (Cons x xs)
  show ?case
  proof (cases "f x = v")
    case True
    with Cons.prems have "v \<notin> f ` set xs" by simp
    then have "\<forall>y \<in> set xs. f y \<noteq> v" by blast
    then have "filter (\<lambda>x. f x = v) xs = []" by (simp add: filter_empty_conv)
    with True show ?thesis by simp
  next
    case False
    with Cons show ?thesis by simp
  qed
qed

lemma likes_ok_post_once:
  assumes "likes_ok db"
  shows "length (filter (\<lambda>l. like.user_id l = u \<and> like.post_id l = Some k) (likes db)) \<le> 1"
proof -
  have "filter (\<lambda>l. like.user_id l = u \<and> like.post_id l = Some k) (likes db)
        = filter (\<lambda>l. like_key l = (u, Some k, None)) (likes db)"
    using assms
    by (intro filter_cong refl) (auto simp: likes_ok_def list_all_iff check_like_target_def like_key_def)
  then show ?thesis
    using assms distinct_key_count [of like_key "likes db" "(u, Some k, None)"]
    by (simp add: likes_ok_def)
qed

lemma likes_ok_comment_once:
  assumes "likes_ok db"
  shows "length (filter (\<lambda>l. like.user_id l = u \<and> like.comment_id l = Some k) (likes db)) \<le> 1"
proof -
  have "filter (\<lambda>l. like.user_id l = u \<and> like.comment_id l = Some k) (likes db)
        = filter (\<lambda>l. like_key l = (u, None, Some k)) (likes db)"
    using assms
    by (intro filter_cong refl) (auto simp: likes_ok_def list_all_iff check_like_target_def like_key_def)
  then show ?thesis
    using assms distinct_key_count [of like_key "likes db" "(u, None, Some k)"]
    by (simp add: likes_ok_def)
qed

lemma toggle_post_like_inserts_only_unliked:
  assumes "likes (snd (toggle_post_like cu pid req db)) = likes db @ [l]"
  shows "find (\<lambda>x. like.user_id x = user.id cu \<and> like.post_id x = Some pid
                    \<and> like.comment_id x = None) (likes db) = None"
proof (rule ccontr)
  assume "\<not> ?thesis"
  then obtain e where e: "find (\<lambda>x. like.user_id x = user.id cu \<and> like.post_id x = Some pid
                    \<and> like.comment_id x = None) (likes db) = Some e" by auto
  have "length (likes (snd (toggle_post_like cu pid req db))) \<le> length (likes db)"
    using e by (auto simp: toggle_post_like_def Let_def split: option.splits)
  with assms show False by simp
qed

lemma toggle_comment_like_inserts_only_unliked:
  assumes "likes (snd (toggle_comment_like cu cid req db)) = likes db @ [l]"
  shows "find (\<lambda>x. like.user_id x = user.id cu \<and> like.comment_id x = Some cid
                    \<and> like.post_id x = None) (likes db) = None"
proof (rule ccontr)
  assume "\<not> ?thesis"
  then obtain e where e: "find (\<lambda>x. like.user_id x = user.id cu \<and> like.comment_id x = Some cid
                    \<and> like.post_id x = None) (likes db) = Some e" by auto
  have "length (likes (snd (toggle_comment_like cu cid req db))) \<le> length (likes db)"
    using e by (auto simp: toggle_comment_like_def Let_def split: option.splits)
  with assms show False by simp
qed

lemma reachable_forum2: "reachable K0 forum2"
  unfolding forum2_def forum1_def forum0_def
  by (intro reachable.request reachable.start)

lemma reachable_forum3: "reachable K0 forum3"
  unfolding forum3_def by (intro reachable.request reachable_forum2)

lemma forum0_eq: "forum0 = \<lparr>users = [alice], posts = [], comments = [], likes = []\<rparr>"
  by (simp add: forum0_def create_tables_def empty_db_def K0_def alice_def next_id_def)

lemma forum1_eq:
  "forum1 = \<lparr>users = [alice],
             posts = [\<lparr>post.id = 1, post.title = ''Hi'', post.content = ''all'',
                       post.user_id = 1, post.created_at = 100, post.updated_at = 100\<rparr>],
             comments = [], likes = []\<rparr>"
  by (simp add: forum1_def forum0_eq token_required_def as_admin_def anonymous_def User_get_def
      alice_def create_post_def get_str_def no_body_def next_id_def Let_def)

lemma forum2_eq:
  "forum2 = \<lparr>users = [alice],
             posts = [\<lparr>post.id = 1, post.title = ''Hi'', post.content = ''all'',
                       post.user_id = 1, post.created_at = 100, post.updated_at = 100\<rparr>],
             comments = [\<lparr>comment.id = 1, comment.content = ''first'', comment.user_id = 1,
                          comment.post_id = 1, comment.created_at = 100,
                          comment.updated_at = 100\<rparr>],
             likes = []\<rparr>"
  by (simp add: forum2_def forum1_eq token_required_def as_admin_def anonymous_def User_get_def
      Post_get_def alice_def create_comment_def get_str_def no_body_def next_id_def Let_def)

lemma forum3_eq:
  "forum3 = \<lparr>users = [alice],
             posts = [\<lparr>post.id = 1, post.title = ''Hi'', post.content = ''all'',
                       post.user_id = 1, post.created_at = 100, post.updated_at = 100\<rparr>],
             comments = [\<lparr>comment.id = 1, comment.content = ''first'', comment.user_id = 1,
                          comment.post_id = 1, comment.created_at = 100,
                          comment.updated_at = 100\<rparr>],
             likes = [\<lparr>like.id = 1, like.user_id = 1, like.post_id = Some 1,
                       like.comment_id = None, like.created_at = 100\<rparr>]\<rparr>"
  by (simp add: forum3_def forum2_eq token_required_def as_admin_def anonymous_def User_get_def
      Post_get_def alice_def toggle_post_like_def next_id_def Let_def)

lemma check_like_target_toggle_post_like:
  assumes "list_all check_like_target (likes db)"
  shows "list_all check_like_target (likes (snd (toggle_post_like cu pid req db)))"
  using assms
  by (auto simp: toggle_post_like_def Let_def list_all_iff check_like_target_def
      split: option.splits)

lemma check_like_target_toggle_comment_like:
  assumes "list_all check_like_target (likes db)"
  shows "list_all check_like_target (likes (snd (toggle_comment_like cu cid req db)))"
  using assms
  by (auto simp: toggle_comment_like_def Let_def list_all_iff check_like_target_def
      split: option.splits)

text \<open>
  Claim C3. In every reachable database every like has exactly one of \<^verbatim>\<open>post_id\<close> and
  \<^verbatim>\<open>comment_id\<close> set, never both and never neither; and the two handlers that create
  likes, \<^verbatim>\<open>toggle_post_like\<close> and \<^verbatim>\<open>toggle_comment_like\<close>, keep this true of any
  database in which it holds.
\<close>

theorem like_has_exactly_one_target:
  "(reachable K db \<longrightarrow>
      (\<forall>l \<in> set (likes db).
         (like.post_id l \<noteq> None \<and> like.comment_id l = None)
         \<or> (like.post_id l = None \<and> like.comment_id l \<noteq> None)))
   \<and> (list_all check_like_target (likes db') \<longrightarrow>
        list_all check_like_target (likes (snd (toggle_post_like cu pid req db')))
        \<and> list_all check_like_target (likes (snd (toggle_comment_like cu cid req db'))))"
proof (intro conjI impI)
  assume "reachable K db"
  then have "likes_ok db" by (rule reachable_likes_ok)
  then show "\<forall>l \<in> set (likes db).
         (like.post_id l \<noteq> None \<and> like.comment_id l = None)
         \<or> (like.post_id l = None \<and> like.comment_id l \<noteq> None)"
    by (simp add: likes_ok_def list_all_iff check_like_target_def)
qed (simp_all add: check_like_target_toggle_post_like check_like_target_toggle_comment_like)

theorem like_has_exactly_one_target_witness:
  "reachable K0 forum3
   \<and> likes forum3 = [\<lparr>like.id = 1, like.user_id = 1, like.post_id = Some 1,
                       like.comment_id = None, like.created_at = 100\<rparr>]
   \<and> list_all check_like_target (likes forum3)
   \<and> list_all check_like_target (likes (snd (toggle_post_like alice 1 as_admin forum3)))
   \<and> list_all check_like_target (likes (snd (toggle_comment_like alice 1 as_admin forum3)))"
proof -
  have r: "reachable K0 forum3" by (rule reachable_forum3)
  have ok: "list_all check_like_target (likes forum3)"
    using like_has_exactly_one_target [of K0 forum3 forum3 alice 1 as_admin 1] r
    by (simp add: list_all_iff check_like_target_def)
  show ?thesis
    using like_has_exactly_one_target [of K0 forum3 forum3 alice 1 as_admin 1] r ok
    by (simp add: forum3_eq)
qed

text \<open>
  Claim C4. In every reachable database a user has at most one like on a post and at most
  one on a comment; every request keeps the constraints of the likes table; and a toggle
  handler that has appended a like found no matching row before.
\<close>

theorem like_at_most_once:
  "(reachable K db \<longrightarrow>
      length (filter (\<lambda>l. like.user_id l = u \<and> like.post_id l = Some k) (likes db)) \<le> 1
      \<and> length (filter (\<lambda>l. like.user_id l = u \<and> like.comment_id l = Some k) (likes db)) \<le> 1)
   \<and> (likes_ok db' \<longrightarrow> likes_ok (snd (app K r req db')))
   \<and> (likes (snd (toggle_post_like cu pid req db')) = likes db' @ [l] \<longrightarrow>
        find (\<lambda>x. like.user_id x = user.id cu \<and> like.post_id x = Some pid
                    \<and> like.comment_id x = None) (likes db') = None)
   \<and> (likes (snd (toggle_comment_like cu cid req db')) = likes db' @ [l'] \<longrightarrow>
        find (\<lambda>x. like.user_id x = user.id cu \<and> like.comment_id x = Some cid
                    \<and> like.post_id x = None) (likes db') = None)"
  using reachable_likes_ok [of K db] likes_ok_post_once [of db u k]
    likes_ok_comment_once [of db u k] likes_ok_app [of db' K r req]
    toggle_post_like_inserts_only_unliked [of cu pid req db' l]
    toggle_comment_like_inserts_only_unliked [of cu cid req db' l']
  by blast


theorem like_at_most_once_witness:
  "reachable K0 forum3
   \<and> length (filter (\<lambda>l. like.user_id l = 1 \<and> like.post_id l = Some 1) (likes forum3)) = 1
   \<and> length (filter (\<lambda>l. like.user_id l = 1 \<and> like.comment_id l = Some 1) (likes forum3)) \<le> 1
   \<and> likes_ok forum2
   \<and> likes_ok (snd (app K0 (POST_post_like 1) as_admin forum2))
   \<and> likes (snd (toggle_post_like alice 1 as_admin forum2))
       = likes forum2 @ [\<lparr>like.id = 1, like.user_id = 1, like.post_id = Some 1,
                            like.comment_id = None, like.created_at = 100\<rparr>]
   \<and> find (\<lambda>x. like.user_id x = user.id alice \<and> like.post_id x = Some 1
                 \<and> like.comment_id x = None) (likes forum2) = None
   \<and> likes (snd (toggle_comment_like alice 1 as_admin forum2))
       = likes forum2 @ [\<lparr>like.id = 1, like.user_id = 1, like.post_id = None,
                            like.comment_id = Some 1, like.created_at = 100\<rparr>]
   \<and> find (\<lambda>x. like.user_id x = user.id alice \<and> like.comment_id x = Some 1
                 \<and> like.post_id x = None) (likes forum2) = None"
proof -
  let ?lp = "\<lparr>like.id = 1, like.user_id = 1, like.post_id = Some 1,
               like.comment_id = None, like.created_at = 100\<rparr>"
  let ?lc = "\<lparr>like.id = 1, like.user_id = 1, like.post_id = None,
               like.comment_id = Some 1, like.created_at = 100\<rparr>"
  have r: "reachable K0 forum3" by (rule reachable_forum3)
  have ok: "likes_ok forum2" by (rule reachable_likes_ok [OF reachable_forum2])
  have hp: "likes (snd (toggle_post_like alice 1 as_admin forum2)) = likes forum2 @ [?lp]"
    by (simp add: forum2_eq toggle_post_like_def Post_get_def alice_def as_admin_def
        anonymous_def next_id_def Let_def)
  have hc: "likes (snd (toggle_comment_like alice 1 as_admin forum2)) = likes forum2 @ [?lc]"
    by (simp add: forum2_eq toggle_comment_like_def Comment_get_def alice_def as_admin_def
        anonymous_def next_id_def Let_def)
  have one: "length (filter (\<lambda>l. like.user_id l = 1 \<and> like.post_id l = Some 1) (likes forum3)) = 1"
    by (simp add: forum3_eq)
  show ?thesis
    using like_at_most_once [of K0 forum3 1 1 forum2 "POST_post_like 1" as_admin alice 1 ?lp 1 ?lc]
      r ok hp hc one
    by blast
qed

section \<open>The like toggle\<close>

lemma post_like_matches:
  "(like.user_id l = u \<and> like.post_id l = Some pid \<and> like.comment_id l = None)
   = (like_key l = (u, Some pid, None))"
  by (auto simp: like_key_def)

lemma comment_like_matches:
  "(like.user_id l = u \<and> like.comment_id l = Some cid \<and> like.post_id l = None)
   = (like_key l = (u, None, Some cid))"
  by (auto simp: like_key_def)

lemma find_like_key_None:
  "(find (\<lambda>l. like_key l = k) xs = None) = (k \<notin> like_key ` set xs)"
  unfolding find_None_iff by blast

lemma find_like_key_Some:
  assumes "find (\<lambda>l. like_key l = k) xs = Some e"
  shows "e \<in> set xs" and "like_key e = k"
  using assms unfolding find_Some_iff by (auto simp: in_set_conv_nth)

lemma like_state_unlike:
  assumes ok: "likes_ok db" and e: "e \<in> set (likes db)"
  shows "like_key ` set (filter (\<lambda>l. like.id l \<noteq> like.id e) (likes db))
         = like_state db - {like_key e}"
proof -
  have inj_key: "inj_on like_key (set (likes db))" and inj_id: "inj_on like.id (set (likes db))"
    using ok by (simp_all add: likes_ok_def distinct_map)
  show ?thesis
  proof (intro set_eqI iffI)
    fix k
    assume "k \<in> like_key ` set (filter (\<lambda>l. like.id l \<noteq> like.id e) (likes db))"
    then obtain x where x: "x \<in> set (likes db)" "like.id x \<noteq> like.id e" "k = like_key x"
      by auto
    from x(2) have "x \<noteq> e" by blast
    with inj_key x(1) e have "like_key x \<noteq> like_key e" by (blast dest: inj_onD)
    with x(1,3) show "k \<in> like_state db - {like_key e}" by (simp add: like_state_def)
  next
    fix k
    assume "k \<in> like_state db - {like_key e}"
    then obtain x where x: "x \<in> set (likes db)" "k = like_key x" "like_key x \<noteq> like_key e"
      unfolding like_state_def by auto
    from x(3) have "x \<noteq> e" by blast
    with inj_id x(1) e have "like.id x \<noteq> like.id e" by (blast dest: inj_onD)
    with x(1,2) show "k \<in> like_key ` set (filter (\<lambda>l. like.id l \<noteq> like.id e) (likes db))"
      by simp
  qed
qed


lemma toggle_post_like_adds:
  assumes p: "Post_get db pid = Some p" and out: "(user.id cu, Some pid, None) \<notin> like_state db"
  shows "\<exists>n. fst (toggle_post_like cu pid req db) = Response 201 (LikePayload True n)"
    and "like_state (snd (toggle_post_like cu pid req db)) = insert (user.id cu, Some pid, None) (like_state db)"
proof -
  let ?new = "\<lparr>like.id = next_id (map like.id (likes db)), like.user_id = user.id cu,
                like.post_id = Some pid, like.comment_id = None, like.created_at = utcnow req\<rparr>"
  have none: "find (\<lambda>l. like_key l = (user.id cu, Some pid, None)) (likes db) = None"
    using out by (simp add: find_like_key_None like_state_def)
  have key: "like_key ?new = (user.id cu, Some pid, None)"
    by (simp add: like_key_def)
  have eq: "toggle_post_like cu pid req db =
          (Response 201 (LikePayload True (likes_count_post (db\<lparr>likes := likes db @ [?new]\<rparr>) (post.id p))),
           db\<lparr>likes := likes db @ [?new]\<rparr>)"
    using none p by (simp add: toggle_post_like_def post_like_matches Let_def)
  show "\<exists>n. fst (toggle_post_like cu pid req db) = Response 201 (LikePayload True n)"
    by (simp add: eq)
  show "like_state (snd (toggle_post_like cu pid req db)) = insert (user.id cu, Some pid, None) (like_state db)"
    using key by (simp add: eq like_state_def)
qed

lemma toggle_post_like_removes:
  assumes ok: "likes_ok db" and p: "Post_get db pid = Some p"
    and inn: "(user.id cu, Some pid, None) \<in> like_state db"
  shows "\<exists>n. fst (toggle_post_like cu pid req db) = Response 200 (LikePayload False n)"
    and "like_state (snd (toggle_post_like cu pid req db)) = like_state db - {(user.id cu, Some pid, None)}"
proof -
  have "find (\<lambda>l. like_key l = (user.id cu, Some pid, None)) (likes db) \<noteq> None"
    using inn by (simp add: find_like_key_None like_state_def)
  then obtain e where some: "find (\<lambda>l. like_key l = (user.id cu, Some pid, None)) (likes db) = Some e"
    by blast
  note e = find_like_key_Some [OF some]
  let ?db' = "db\<lparr>likes := filter (\<lambda>l. like.id l \<noteq> like.id e) (likes db)\<rparr>"
  have eq: "toggle_post_like cu pid req db =
          (Response 200 (LikePayload False (likes_count_post ?db' (post.id p))), ?db')"
    using some p by (simp add: toggle_post_like_def post_like_matches Let_def)
  show "\<exists>n. fst (toggle_post_like cu pid req db) = Response 200 (LikePayload False n)"
    by (simp add: eq)
  have "like_state ?db' = like_state db - {like_key e}"
    using like_state_unlike [OF ok e(1)] by (simp add: like_state_def)
  then show "like_state (snd (toggle_post_like cu pid req db)) = like_state db - {(user.id cu, Some pid, None)}"
    by (simp add: eq e(2))
qed

lemma Post_get_toggle_post_like:
  "Post_get (snd (toggle_post_like cu pid req db)) k = Post_get db k"
  by (simp add: toggle_post_like_def Post_get_def Let_def split: option.splits)

lemma toggle_post_like_twice:
  assumes ok: "likes_ok db" and p: "Post_get db pid = Some p"
  shows "like_state (snd (toggle_post_like cu pid req' (snd (toggle_post_like cu pid req db))))
         = like_state db"
proof -
  let ?k = "(user.id cu, Some pid, None :: int option)"
  let ?db1 = "snd (toggle_post_like cu pid req db)"
  have ok1: "likes_ok ?db1" using ok by (rule likes_ok_toggle_post_like)
  have p1: "Post_get ?db1 pid = Some p" using p by (simp only: Post_get_toggle_post_like)
  show ?thesis
  proof (cases "?k \<in> like_state db")
    case True
    have 1: "like_state ?db1 = like_state db - {?k}"
      by (rule toggle_post_like_removes(2) [OF ok p True])
    then have "?k \<notin> like_state ?db1" by simp
    then have "like_state (snd (toggle_post_like cu pid req' ?db1)) = insert ?k (like_state ?db1)"
      by (rule toggle_post_like_adds(2) [OF p1])
    with 1 True show ?thesis by (simp add: insert_absorb)
  next
    case False
    have 1: "like_state ?db1 = insert ?k (like_state db)"
      by (rule toggle_post_like_adds(2) [OF p False])
    then have "?k \<in> like_state ?db1" by simp
    then have "like_state (snd (toggle_post_like cu pid req' ?db1)) = like_state ?db1 - {?k}"
      by (rule toggle_post_like_removes(2) [OF ok1 p1])
    with 1 False show ?thesis by simp
  qed
qed

lemma toggle_comment_like_adds:
  assumes c: "Comment_get db cid = Some c" and out: "(user.id cu, None, Some cid) \<notin> like_state db"
  shows "\<exists>n. fst (toggle_comment_like cu cid req db) = Response 201 (LikePayload True n)"
    and "like_state (snd (toggle_comment_like cu cid req db)) = insert (user.id cu, None, Some cid) (like_state db)"
proof -
  let ?new = "\<lparr>like.id = next_id (map like.id (likes db)), like.user_id = user.id cu,
                like.post_id = None, like.comment_id = Some cid, like.created_at = utcnow req\<rparr>"
  have none: "find (\<lambda>l. like_key l = (user.id cu, None, Some cid)) (likes db) = None"
    using out by (simp add: find_like_key_None like_state_def)
  have key: "like_key ?new = (user.id cu, None, Some cid)"
    by (simp add: like_key_def)
  have eq: "toggle_comment_like cu cid req db =
          (Response 201 (LikePayload True (likes_count_comment (db\<lparr>likes := likes db @ [?new]\<rparr>) (comment.id c))),
           db\<lparr>likes := likes db @ [?new]\<rparr>)"
    using none c by (simp add: toggle_comment_like_def comment_like_matches Let_def)
  show "\<exists>n. fst (toggle_comment_like cu cid req db) = Response 201 (LikePayload True n)"
    by (simp add: eq)
  show "like_state (snd (toggle_comment_like cu cid req db)) = insert (user.id cu, None, Some cid) (like_state db)"
    using key by (simp add: eq like_state_def)
qed

lemma toggle_comment_like_removes:
  assumes ok: "likes_ok db" and c: "Comment_get db cid = Some c"
    and inn: "(user.id cu, None, Some cid) \<in> like_state db"
  shows "\<exists>n. fst (toggle_comment_like cu cid req db) = Response 200 (LikePayload False n)"
    and "like_state (snd (toggle_comment_like cu cid req db)) = like_state db - {(user.id cu, None, Some cid)}"
proof -
  have "find (\<lambda>l. like_key l = (user.id cu, None, Some cid)) (likes db) \<noteq> None"
    using inn by (simp add: find_like_key_None like_state_def)
  then obtain e where some: "find (\<lambda>l. like_key l = (user.id cu, None, Some cid)) (likes db) = Some e"
    by blast
  note e = find_like_key_Some [OF some]
  let ?db' = "db\<lparr>likes := filter (\<lambda>l. like.id l \<noteq> like.id e) (likes db)\<rparr>"
  have eq: "toggle_comment_like cu cid req db =
          (Response 200 (LikePayload False (likes_count_comment ?db' (comment.id c))), ?db')"
    using some c by (simp add: toggle_comment_like_def comment_like_matches Let_def)
  show "\<exists>n. fst (toggle_comment_like cu cid req db) = Response 200 (LikePayload False n)"
    by (simp add: eq)
  have "like_state ?db' = like_state db - {like_key e}"
    using like_state_unlike [OF ok e(1)] by (simp add: like_state_def)
  then show "like_state (snd (toggle_comment_like cu cid req db)) = like_state db - {(user.id cu, None, Some cid)}"
    by (simp add: eq e(2))
qed

lemma Comment_get_toggle_comment_like:
  "Comment_get (snd (toggle_comment_like cu cid req db)) k = Comment_get db k"
  by (simp add: toggle_comment_like_def Comment_get_def Let_def split: option.splits)

lemma toggle_comment_like_twice:
  assumes ok: "likes_ok db" and c: "Comment_get db cid = Some c"
  shows "like_state (snd (toggle_comment_like cu cid req' (snd (toggle_comment_like cu cid req db))))
         = like_state db"
proof -
  let ?k = "(user.id cu, None :: int option, Some cid)"
  let ?db1 = "snd (toggle_comment_like cu cid req db)"
  have ok1: "likes_ok ?db1" using ok by (rule likes_ok_toggle_comment_like)
  have c1: "Comment_get ?db1 cid = Some c" using c by (simp only: Comment_get_toggle_comment_like)
  show ?thesis
  proof (cases "?k \<in> like_state db")
    case True
    have 1: "like_state ?db1 = like_state db - {?k}"
      by (rule toggle_comment_like_removes(2) [OF ok c True])
    then have "?k \<notin> like_state ?db1" by simp
    then have "like_state (snd (toggle_comment_like cu cid req' ?db1)) = insert ?k (like_state ?db1)"
      by (rule toggle_comment_like_adds(2) [OF c1])
    with 1 True show ?thesis by (simp add: insert_absorb)
  next
    case False
    have 1: "like_state ?db1 = insert ?k (like_state db)"
      by (rule toggle_comment_like_adds(2) [OF c False])
    then have "?k \<in> like_state ?db1" by simp
    then have "like_state (snd (toggle_comment_like cu cid req' ?db1)) = like_state ?db1 - {?k}"
      by (rule toggle_comment_like_removes(2) [OF ok1 c1])
    with 1 False show ?thesis by simp
  qed
qed

text \<open>
  Claim C5. In a reachable database, for any user and any existing post (and likewise any
  existing comment): if the user likes the target, the like endpoint answers 200 and the
  user no longer likes it; if not, it answers 201 and the user likes it; nobody else's
  likes change; and two calls in a row leave who likes what as it was.
\<close>

theorem like_toggle:
  assumes "reachable K db"
  shows "(Post_get db pid = Some p \<longrightarrow>
            ((user.id cu, Some pid, None) \<in> like_state db \<longrightarrow>
               (\<exists>n. fst (toggle_post_like cu pid req db) = Response 200 (LikePayload False n))
               \<and> like_state (snd (toggle_post_like cu pid req db))
                   = like_state db - {(user.id cu, Some pid, None)})
            \<and> ((user.id cu, Some pid, None) \<notin> like_state db \<longrightarrow>
               (\<exists>n. fst (toggle_post_like cu pid req db) = Response 201 (LikePayload True n))
               \<and> like_state (snd (toggle_post_like cu pid req db))
                   = insert (user.id cu, Some pid, None) (like_state db))
            \<and> like_state (snd (toggle_post_like cu pid req' (snd (toggle_post_like cu pid req db))))
                = like_state db)
       \<and> (Comment_get db cid = Some c \<longrightarrow>
            ((user.id cu, None, Some cid) \<in> like_state db \<longrightarrow>
               (\<exists>n. fst (toggle_comment_like cu cid req db) = Response 200 (LikePayload False n))
               \<and> like_state (snd (toggle_comment_like cu cid req db))
                   = like_state db - {(user.id cu, None, Some cid)})
            \<and> ((user.id cu, None, Some cid) \<notin> like_state db \<longrightarrow>
               (\<exists>n. fst (toggle_comment_like cu cid req db) = Response 201 (LikePayload True n))
               \<and> like_state (snd (toggle_comment_like cu cid req db))
                   = insert (user.id cu, None, Some cid) (like_state db))
            \<and> like_state (snd (toggle_comment_like cu cid req'
                    (snd (toggle_comment_like cu cid req db))))
                = like_state db)"
proof -
  have ok: "likes_ok db" using assms by (rule reachable_likes_ok)
  show ?thesis
    by (intro conjI impI)
      (erule toggle_post_like_removes [OF ok] toggle_post_like_adds
         toggle_post_like_twice [OF ok] toggle_comment_like_removes [OF ok]
         toggle_comment_like_adds toggle_comment_like_twice [OF ok],
       assumption?)+
qed


theorem like_toggle_witness:
  "reachable K0 forum3
   \<and> Post_get forum3 1 \<noteq> None
   \<and> (user.id alice, Some 1, None) \<in> like_state forum3
   \<and> (\<exists>n. fst (toggle_post_like alice 1 as_admin forum3) = Response 200 (LikePayload False n))
   \<and> like_state (snd (toggle_post_like alice 1 as_admin forum3))
       = like_state forum3 - {(user.id alice, Some 1, None)}
   \<and> like_state (snd (toggle_post_like alice 1 anonymous
                         (snd (toggle_post_like alice 1 as_admin forum3))))
       = like_state forum3
   \<and> Comment_get forum3 1 \<noteq> None
   \<and> (user.id alice, None, Some 1) \<notin> like_state forum3
   \<and> (\<exists>n. fst (toggle_comment_like alice 1 as_admin forum3) = Response 201 (LikePayload True n))
   \<and> like_state (snd (toggle_comment_like alice 1 as_admin forum3))
       = insert (user.id alice, None, Some 1) (like_state forum3)
   \<and> like_state (snd (toggle_comment_like alice 1 anonymous
                         (snd (toggle_comment_like alice 1 as_admin forum3))))
       = like_state forum3"
proof -
  let ?p = "\<lparr>post.id = 1, post.title = ''Hi'', post.content = ''all'',
              post.user_id = 1, post.created_at = 100, post.updated_at = 100\<rparr>"
  let ?c = "\<lparr>comment.id = 1, comment.content = ''first'', comment.user_id = 1,
              comment.post_id = 1, comment.created_at = 100, comment.updated_at = 100\<rparr>"
  have r: "reachable K0 forum3" by (rule reachable_forum3)
  have p: "Post_get forum3 1 = Some ?p" by (simp add: forum3_eq Post_get_def)
  have c: "Comment_get forum3 1 = Some ?c" by (simp add: forum3_eq Comment_get_def)
  have inn: "(user.id alice, Some 1, None) \<in> like_state forum3"
    by (simp add: forum3_eq like_state_def like_key_def alice_def)
  have out: "(user.id alice, None, Some 1) \<notin> like_state forum3"
    by (simp add: forum3_eq like_state_def like_key_def alice_def)
  show ?thesis
    using like_toggle [OF r, of 1 ?p alice as_admin anonymous 1 ?c] r p c inn out
    by simp
qed

section \<open>Registration\<close>

text \<open>
  Claim C6. \<^verbatim>\<open>/api/register\<close> needs no token; a body with a username, an email and a
  password that are not taken, and with \<^verbatim>\<open>is_admin\<close> true, creates a user whose admin
  flag is set.
\<close>

theorem register_grants_admin:
  assumes "get_json req = Some data"
    and "b_username data = Some name" and "name \<noteq> []"
    and "b_email data = Some addr" and "addr \<noteq> []"
    and "b_password data = Some pw" and "pw \<noteq> []"
    and "b_is_admin data = Some True"
    and "find (\<lambda>u. user.username u = name) (users db) = None"
    and "find (\<lambda>u. user.email u = addr) (users db) = None"
  shows "\<exists>u. app K POST_register req db
               = (Response 201 (UserPayload u), db\<lparr>users := users db @ [u]\<rparr>)
             \<and> user.is_admin u \<and> user.username u = name \<and> user.email u = addr"
  using assms by (simp add: register_def get_str_def Let_def)

theorem register_grants_admin_witness:
  "authorization (anonymous\<lparr>get_json := Some mallory\<rparr>) = NoToken
   \<and> (\<exists>u. app K0 POST_register (anonymous\<lparr>get_json := Some mallory\<rparr>) forum
            = (Response 201 (UserPayload u), forum\<lparr>users := users forum @ [u]\<rparr>)
          \<and> user.is_admin u \<and> user.username u = ''mallory''
          \<and> user.email u = ''mallory@example.com'')"
  using register_grants_admin [of "anonymous\<lparr>get_json := Some mallory\<rparr>" mallory
      "''mallory''" "''mallory@example.com''" "''letmein''" forum K0]
  by (simp add: mallory_def no_body_def anonymous_def forum_def alice_def bob_def carol_def)

section \<open>Handlers that read the body unguarded\<close>




section \<open>No commit on an error\<close>

lemma cos_same [simp]: "commits_only_on_success (out, db) db"
  by (simp add: commits_only_on_success_def)

lemma cos_success: "success out \<Longrightarrow> commits_only_on_success (out, db') db"
  by (simp add: commits_only_on_success_def)

lemma success_200 [simp]: "success (Response 200 pl)"
  by (simp add: success_def)

lemma success_201 [simp]: "success (Response 201 pl)"
  by (simp add: success_def)

lemma cos_token_required:
  assumes "\<And>cu. commits_only_on_success (f cu req db) db"
  shows "commits_only_on_success (token_required f req db) db"
  using assms by (simp add: token_required_def split: bearer.splits option.splits)

lemma cos_admin_required:
  assumes "commits_only_on_success (f cu req db) db"
  shows "commits_only_on_success (admin_required f cu req db) db"
  using assms by (simp add: admin_required_def)

lemma cos_register: "commits_only_on_success (register K req db) db"
  by (simp add: register_def Let_def cos_success split: option.splits)

lemma cos_login: "commits_only_on_success (login K req db) db"
  by (simp add: login_def split: option.splits)

lemma cos_delete_user: "commits_only_on_success (delete_user cu uid req db) db"
  by (simp add: delete_user_def cos_success split: option.splits)

lemma cos_update_user: "commits_only_on_success (update_user K cu uid req db) db"
  by (simp add: update_user_def Let_def cos_success split: option.splits sum.splits)

lemma cos_create_post: "commits_only_on_success (create_post cu req db) db"
  by (simp add: create_post_def Let_def cos_success split: option.splits)

lemma cos_update_post: "commits_only_on_success (update_post cu pid req db) db"
  by (simp add: update_post_def Let_def cos_success split: option.splits)

lemma cos_delete_post: "commits_only_on_success (delete_post cu pid req db) db"
  by (simp add: delete_post_def cos_success split: option.splits)

lemma cos_create_comment: "commits_only_on_success (create_comment cu pid req db) db"
  by (simp add: create_comment_def Let_def cos_success split: option.splits)

lemma cos_update_comment: "commits_only_on_success (update_comment cu cid req db) db"
  by (simp add: update_comment_def Let_def cos_success split: option.splits)

lemma cos_delete_comment: "commits_only_on_success (delete_comment cu cid req db) db"
  by (simp add: delete_comment_def cos_success split: option.splits)

lemma cos_toggle_post_like: "commits_only_on_success (toggle_post_like cu pid req db) db"
  by (simp add: toggle_post_like_def Let_def cos_success split: option.splits)

lemma cos_toggle_comment_like: "commits_only_on_success (toggle_comment_like cu cid req db) db"
  by (simp add: toggle_comment_like_def Let_def cos_success split: option.splits)

lemma cos_update_own_profile: "commits_only_on_success (update_own_profile cu req db) db"
  by (simp add: update_own_profile_def cos_success split: option.splits sum.splits)

lemma cos_update_password: "commits_only_on_success (update_password K cu req db) db"
  by (simp add: update_password_def cos_success split: option.splits)

lemma cos_read_only:
  "commits_only_on_success (get_current_user cu req db) db"
  "commits_only_on_success (get_all_users cu req db) db"
  "commits_only_on_success (get_posts req db) db"
  "commits_only_on_success (get_post pid req db) db"
  "commits_only_on_success (get_comments pid req db) db"
  "commits_only_on_success (get_post_likes pid req db) db"
  "commits_only_on_success (get_comment_likes cid req db) db"
  "commits_only_on_success (check_user_liked_post cu pid req db) db"
  "commits_only_on_success (check_user_liked_comment cu cid req db) db"
  "commits_only_on_success (get_user_profile uid req db) db"
  "commits_only_on_success (search_posts req db) db"
  by (simp_all add: get_current_user_def get_all_users_def get_posts_def get_post_def
      get_comments_def get_post_likes_def get_comment_likes_def check_user_liked_post_def
      check_user_liked_comment_def get_user_profile_def search_posts_def Let_def
      split: option.splits)

lemma cos_app: "commits_only_on_success (app K r req db) db"
  by (cases r)
    (simp_all add: cos_token_required cos_admin_required cos_read_only cos_register cos_login
      cos_delete_user cos_update_user cos_create_post cos_update_post cos_delete_post
      cos_create_comment cos_update_comment cos_delete_comment cos_toggle_post_like
      cos_toggle_comment_like cos_update_own_profile cos_update_password)

text \<open>
  Claim C9. Whatever the route and the request, a handler whose outcome is not a 2xx
  response (an error status or an exception) leaves the committed database unchanged. In
  particular \<^verbatim>\<open>update_user\<close>, which assigns the username and the email to the loaded row
  before its later checks, commits nothing when it answers 409 or 400, and neither does
  \<^verbatim>\<open>update_own_profile\<close> when it answers 409.
\<close>

theorem atomic_on_error:
  "(\<not> success (fst (app K r req db)) \<longrightarrow> snd (app K r req db) = db)
   \<and> ((\<exists>pl. fst (update_user K cu uid req db) = Response 409 pl
             \<or> fst (update_user K cu uid req db) = Response 400 pl)
        \<longrightarrow> snd (update_user K cu uid req db) = db)
   \<and> ((\<exists>pl. fst (update_own_profile cu req db) = Response 409 pl)
        \<longrightarrow> snd (update_own_profile cu req db) = db)"
proof (intro conjI impI)
  assume "\<not> success (fst (app K r req db))"
  then show "snd (app K r req db) = db"
    using cos_app [of K r req db] by (simp add: commits_only_on_success_def)
next
  assume "\<exists>pl. fst (update_user K cu uid req db) = Response 409 pl
             \<or> fst (update_user K cu uid req db) = Response 400 pl"
  then have "\<not> success (fst (update_user K cu uid req db))"
    by (auto simp: success_def)
  then show "snd (update_user K cu uid req db) = db"
    using cos_update_user [of K cu uid req db] by (simp add: commits_only_on_success_def)
next
  assume "\<exists>pl. fst (update_own_profile cu req db) = Response 409 pl"
  then have "\<not> success (fst (update_own_profile cu req db))"
    by (auto simp: success_def)
  then show "snd (update_own_profile cu req db) = db"
    using cos_update_own_profile [of cu req db] by (simp add: commits_only_on_success_def)
qed


theorem atomic_on_error_witness:
  "change_username 2 rename_bob bob forum = Inr (bob\<lparr>user.username := ''robert''\<rparr>)
   \<and> fst (app K0 (PUT_admin_user 2) (as_admin\<lparr>get_json := Some rename_bob\<rparr>) forum)
       = Response 409 Message
   \<and> snd (app K0 (PUT_admin_user 2) (as_admin\<lparr>get_json := Some rename_bob\<rparr>) forum) = forum
   \<and> fst (update_user K0 alice 2 (as_admin\<lparr>get_json := Some rename_bob\<rparr>) forum)
       = Response 409 Message
   \<and> snd (update_user K0 alice 2 (as_admin\<lparr>get_json := Some rename_bob\<rparr>) forum) = forum
   \<and> fst (update_own_profile alice (as_admin\<lparr>get_json := Some rename_bob\<rparr>) forum)
       = Response 409 Message
   \<and> snd (update_own_profile alice (as_admin\<lparr>get_json := Some rename_bob\<rparr>) forum) = forum"
proof -
  let ?req = "as_admin\<lparr>get_json := Some rename_bob\<rparr>"
  have h0: "change_username 2 rename_bob bob forum = Inr (bob\<lparr>user.username := ''robert''\<rparr>)"
    by (simp add: change_username_def rename_bob_def no_body_def forum_def alice_def bob_def
        carol_def)
  have h2: "fst (update_user K0 alice 2 ?req forum) = Response 409 Message"
    by (simp add: update_user_def User_get_def change_username_def change_email_def put_user_def
        rename_bob_def no_body_def forum_def alice_def bob_def carol_def)
  have h1: "fst (app K0 (PUT_admin_user 2) ?req forum) = Response 409 Message"
    using h2
    by (simp add: token_required_def admin_required_def as_admin_def anonymous_def User_get_def
        forum_def alice_def)
  have h3: "fst (update_own_profile alice ?req forum) = Response 409 Message"
    by (simp add: update_own_profile_def change_username_def change_email_def put_user_def
        rename_bob_def no_body_def forum_def alice_def bob_def carol_def)
  show ?thesis
    using atomic_on_error [of K0 "PUT_admin_user 2" ?req forum alice 2] h0 h1 h2 h3
    by (simp add: success_def)
qed

section \<open>Self-lockout of administrators\<close>







section \<open>Ownership of posts and comments\<close>




lemma posts_delete_comments [simp]: "posts (delete_comments d db) = posts db"
  by (simp add: delete_comments_def Let_def)

















section \<open>Search\<close>

lemma like_match_percent: "like_match [CHR ''%''] s"
  by (induction s) auto

lemma like_match_literal:
  assumes "CHR ''%'' \<notin> set q" and "CHR ''_'' \<notin> set q"
  shows "like_match (q @ [CHR ''%'']) s = prefix (map lower q) (map lower s)"
  using assms
proof (induction q arbitrary: s)
  case Nil
  then show ?case by (simp add: like_match_percent)
next
  case (Cons p ps)
  then show ?case by (cases s) auto
qed

lemma like_match_leading_percent:
  "like_match (CHR ''%'' # ps) s = (\<exists>t. suffix t s \<and> like_match ps t)"
proof (induction s)
  case Nil
  then show ?case by simp
next
  case (Cons c s)
  then show ?case by (auto simp: suffix_Cons)
qed

lemma suffix_map_iff:
  "(\<exists>t. suffix t s \<and> P (map f t)) = (\<exists>t'. suffix t' (map f s) \<and> P t')"
proof
  assume "\<exists>t. suffix t s \<and> P (map f t)"
  then obtain t where "suffix t s" "P (map f t)" by blast
  then have "suffix (map f t) (map f s)" by (auto simp: suffix_def)
  with \<open>P (map f t)\<close> show "\<exists>t'. suffix t' (map f s) \<and> P t'" by blast
next
  assume "\<exists>t'. suffix t' (map f s) \<and> P t'"
  then obtain t' us where t': "map f s = us @ t'" "P t'" by (auto simp: suffix_def)
  then obtain a b where "s = a @ b" "map f b = t'" by (auto simp: map_eq_append_conv)
  with t' show "\<exists>t. suffix t s \<and> P (map f t)" by (auto simp: suffix_def)
qed

lemma ilike_substring:
  assumes "CHR ''%'' \<notin> set q" and "CHR ''_'' \<notin> set q"
  shows "ilike s (CHR ''%'' # q @ ''%'') = sublist (map lower q) (map lower s)"
proof -
  have "ilike s (CHR ''%'' # q @ ''%'') = (\<exists>t. suffix t s \<and> prefix (map lower q) (map lower t))"
    using like_match_literal [OF assms] by (simp add: ilike_def like_match_leading_percent)
  also have "\<dots> = (\<exists>t'. suffix t' (map lower s) \<and> prefix (map lower q) t')"
    by (rule suffix_map_iff)
  also have "\<dots> = sublist (map lower q) (map lower s)"
    by (simp add: sublist_altdef')
  finally show ?thesis .
qed

lemma newest_first_descending:
  "sorted (rev (map post.created_at (take n (posts_newest_first ps))))"
proof -
  have "sorted (map (\<lambda>p. - post.created_at p) (posts_newest_first ps))"
    by (simp add: posts_newest_first_def)
  then have "sorted (map (\<lambda>p. - post.created_at p) (take n (posts_newest_first ps)))"
    by (simp add: take_map [symmetric] sorted_wrt_take del: take_map)
  then show ?thesis
    by (simp add: sorted_wrt_rev sorted_wrt_map)
qed


lemma crowd_all_match:
  "filter (\<lambda>p. ilike (post.title p) ''%ab%'' \<or> ilike (post.content p) ''%ab%'') (posts crowd)
   = posts crowd"
  by (simp add: crowd_def ilike_def lower_def)

text \<open>
  With 51 posts that contain the query, the search returns 50 of them: the result is not
  all the posts that contain it.
\<close>

theorem search_posts_counterexample:
  "search_posts (anonymous\<lparr>arg_q := Some ''ab''\<rparr>) crowd
     = (Response 200 (SearchPayload (take 50 (posts_newest_first (posts crowd))) 50 ''ab''), crowd)
   \<and> length (filter (\<lambda>p. sublist (map lower ''ab'') (map lower (post.title p))
                        \<or> sublist (map lower ''ab'') (map lower (post.content p)))
               (posts crowd)) = 51"
proof
  have "length (posts crowd) = 51" by (simp add: crowd_def)
  then have "length (take 50 (posts_newest_first (posts crowd))) = 50"
    by (simp add: posts_newest_first_def)
  then show "search_posts (anonymous\<lparr>arg_q := Some ''ab''\<rparr>) crowd
     = (Response 200 (SearchPayload (take 50 (posts_newest_first (posts crowd))) 50 ''ab''), crowd)"
    using crowd_all_match by (simp add: search_posts_def sql_limit_def Let_def)
  show "length (filter (\<lambda>p. sublist (map lower ''ab'') (map lower (post.title p))
                        \<or> sublist (map lower ''ab'') (map lower (post.content p)))
               (posts crowd)) = 51"
    by (simp add: crowd_def lower_def)
qed

text \<open>
  The query is put into the pattern as it is: the query \<open>__\<close> finds every post of the
  sample database, none of which contains two underscores.
\<close>

lemma search_posts_wildcard_example:
  "search_posts (anonymous\<lparr>arg_q := Some ''__''\<rparr>) forum
     = (Response 200 (SearchPayload [post2, post3, post1] 3 ''__''), forum)
   \<and> filter (\<lambda>p. sublist (map lower ''__'') (map lower (post.title p))
                \<or> sublist (map lower ''__'') (map lower (post.content p))) (posts forum) = []"
  by code_simp


text \<open>
  Claim C7, amended. A missing query, or one shorter than two characters, is answered 400.
  A query of two characters or more in which neither \<open>%\<close> nor \<open>_\<close> occurs is answered 200
  with the first 50, newest first, of the posts whose title or content contains the query
  as a substring up to the case of ASCII letters: at most 50 posts, in descending order of
  creation time, each of them such a post, and all such posts when there are at most 50.
\<close>

theorem search_posts_substring:
  "((arg_q req = None \<or> arg_q req = Some q \<and> length q < 2) \<longrightarrow>
      search_posts req db = (Response 400 Message, db))
   \<and> (arg_q req' = Some q' \<and> 2 \<le> length q' \<and> CHR ''%'' \<notin> set q' \<and> CHR ''_'' \<notin> set q' \<longrightarrow>
        (\<exists>found.
           search_posts req' db = (Response 200 (SearchPayload found (length found) q'), db)
           \<and> found = take 50 (posts_newest_first
                (filter (\<lambda>p. sublist (map lower q') (map lower (post.title p))
                             \<or> sublist (map lower q') (map lower (post.content p))) (posts db)))
           \<and> length found \<le> 50
           \<and> sorted (rev (map post.created_at found))
           \<and> set found \<subseteq> {p \<in> set (posts db).
                  sublist (map lower q') (map lower (post.title p))
                  \<or> sublist (map lower q') (map lower (post.content p))}
           \<and> (length (filter (\<lambda>p. sublist (map lower q') (map lower (post.title p))
                             \<or> sublist (map lower q') (map lower (post.content p))) (posts db))
                \<le> 50 \<longrightarrow>
               set found = {p \<in> set (posts db).
                  sublist (map lower q') (map lower (post.title p))
                  \<or> sublist (map lower q') (map lower (post.content p))})))"
proof (intro conjI impI)
  assume "arg_q req = None \<or> arg_q req = Some q \<and> length q < 2"
  then show "search_posts req db = (Response 400 Message, db)"
    by (auto simp: search_posts_def)
next
  let ?spec = "\<lambda>p. sublist (map lower q') (map lower (post.title p))
                    \<or> sublist (map lower q') (map lower (post.content p))"
  let ?found = "take 50 (posts_newest_first (filter ?spec (posts db)))"
  assume a: "arg_q req' = Some q' \<and> 2 \<le> length q' \<and> CHR ''%'' \<notin> set q' \<and> CHR ''_'' \<notin> set q'"
  then have wild: "CHR ''%'' \<notin> set q'" "CHR ''_'' \<notin> set q'" and q: "arg_q req' = Some q'"
    and len: "2 \<le> length q'" by simp_all
  from len have ne: "q' \<noteq> []" "\<not> length q' < 2" by auto
  have r: "search_posts req' db = (Response 200 (SearchPayload ?found (length ?found) q'), db)"
    using q ne by (simp add: search_posts_def sql_limit_def Let_def ilike_substring [OF wild])
  have sub: "set ?found \<subseteq> {p \<in> set (posts db). ?spec p}"
    using set_take_subset [of 50 "posts_newest_first (filter ?spec (posts db))"]
    by (auto simp: posts_newest_first_def)
  have all: "length (filter ?spec (posts db)) \<le> 50 \<longrightarrow> set ?found = {p \<in> set (posts db). ?spec p}"
    by (auto simp: posts_newest_first_def)
  show "\<exists>found.
           search_posts req' db = (Response 200 (SearchPayload found (length found) q'), db)
           \<and> found = ?found
           \<and> length found \<le> 50
           \<and> sorted (rev (map post.created_at found))
           \<and> set found \<subseteq> {p \<in> set (posts db). ?spec p}
           \<and> (length (filter ?spec (posts db)) \<le> 50 \<longrightarrow>
               set found = {p \<in> set (posts db). ?spec p})"
    using r sub all newest_first_descending [of 50 "filter ?spec (posts db)"]
    by (intro exI [of _ ?found]) simp
qed


theorem search_posts_substring_witness:
  "arg_q (anonymous\<lparr>arg_q := Some ''a''\<rparr>) = Some ''a'' \<and> length ''a'' < 2
   \<and> search_posts (anonymous\<lparr>arg_q := Some ''a''\<rparr>) forum = (Response 400 Message, forum)
   \<and> arg_q (anonymous\<lparr>arg_q := Some ''FLASK''\<rparr>) = Some ''FLASK''
   \<and> 2 \<le> length ''FLASK''
   \<and> CHR ''%'' \<notin> set ''FLASK'' \<and> CHR ''_'' \<notin> set ''FLASK''
   \<and> search_posts (anonymous\<lparr>arg_q := Some ''FLASK''\<rparr>) forum
       = (Response 200 (SearchPayload [post3, post1] 2 ''FLASK''), forum)
   \<and> sorted (rev (map post.created_at [post3, post1]))"
proof -
  let ?short = "anonymous\<lparr>arg_q := Some ''a''\<rparr>"
  let ?long = "anonymous\<lparr>arg_q := Some ''FLASK''\<rparr>"
  have h1: "arg_q ?short = Some ''a''" "arg_q ?long = Some ''FLASK''" by simp_all
  have h2: "CHR ''%'' \<notin> set ''FLASK''" "CHR ''_'' \<notin> set ''FLASK''" by simp_all
  have e: "take 50 (posts_newest_first
             (filter (\<lambda>p. sublist (map lower ''FLASK'') (map lower (post.title p))
                          \<or> sublist (map lower ''FLASK'') (map lower (post.content p)))
                (posts forum))) = [post3, post1]"
    by code_simp
  from search_posts_substring [of ?short "''a''" forum ?long "''FLASK''"] h1 h2
  have a: "search_posts ?short forum = (Response 400 Message, forum)"
    and "\<exists>found.
           search_posts ?long forum = (Response 200 (SearchPayload found (length found) ''FLASK''), forum)
           \<and> found = take 50 (posts_newest_first
                (filter (\<lambda>p. sublist (map lower ''FLASK'') (map lower (post.title p))
                             \<or> sublist (map lower ''FLASK'') (map lower (post.content p)))
                   (posts forum)))
           \<and> sorted (rev (map post.created_at found))"
    by auto
  then have b: "search_posts ?long forum = (Response 200 (SearchPayload [post3, post1] 2 ''FLASK''), forum)"
    and c: "sorted (rev (map post.created_at [post3, post1]))"
    unfolding e by auto
  show ?thesis using a b c h1 h2 by simp
qed

end
